theory Spec2Isabelle
  imports Main
begin

section \<open>Data model\<close>

text \<open>
  The relational store behind the speaker controller
  (\<^verbatim>\<open>server/src/speaker/talks.controller.ts\<close>): users, talks with their speakers,
  events and proposals. Rows are records, tables are lists in store order. Row ids,
  timestamps and the ids of formats and categories are integers; texts are strings.
  A nullable column is an \<open>option\<close>.
\<close>

record user =
  user_id :: int
  user_uid :: string
  user_name :: string

record talk_row =
  talk_id :: int
  talk_title :: string
  talk_abstract :: string
  talk_level :: "string option"
  talk_language :: "string option"
  talk_references :: "string option"
  talk_speakerIds :: "int list"

text \<open>What \<^verbatim>\<open>getTalk(talkId, { withSpeakers: true })\<close> returns: the talk with its
  speakers joined in as user rows.\<close>

record talk =
  t_id :: int
  t_title :: string
  t_abstract :: string
  t_level :: "string option"
  t_language :: "string option"
  t_references :: "string option"
  t_speakers :: "user list"

datatype eventType = CONFERENCE | MEETUP

text \<open>A nullable number as JavaScript sees it: \<open>event.maxProposals\<close> may be
  \<open>undefined\<close>, \<open>null\<close> or a number.\<close>

datatype jsnum = Undefined | Null | Num int

record event =
  event_id :: int
  event_type :: eventType
  event_cfpStart :: "int option"
  event_cfpEnd :: "int option"
  event_formatsRequired :: bool
  event_categoriesRequired :: bool
  event_maxProposals :: jsnum
  event_ownerId :: "int option"
  event_organizationId :: "int option"

record proposal =
  proposal_id :: int
  proposal_talkId :: int
  proposal_eventId :: int
  proposal_title :: string
  proposal_abstract :: string
  proposal_level :: "string option"
  proposal_language :: "string option"
  proposal_references :: "string option"
  proposal_comments :: "string option"
  proposal_status :: string
  proposal_speakers :: "int list"
  proposal_formats :: "int list"
  proposal_categories :: "int list"

text \<open>The organizer side: organization members with their role, one rating per
  (user, proposal), and messages under a proposal. Only the reviewer role is told apart
  from the others.\<close>

datatype organizationRole = REVIEWER | OtherRole string

record organizationMember =
  member_userId :: int
  member_organizationId :: int
  member_role :: organizationRole

record rating =
  rating_userId :: int
  rating_proposalId :: int
  rating_rating :: "int option"
  rating_feeling :: "string option"

record message =
  message_id :: int
  message_userId :: int
  message_proposalId :: int
  message_message :: string
  message_channel :: string

record store =
  users :: "user list"
  talks :: "talk_row list"
  events :: "event list"
  proposals :: "proposal list"
  nextProposalId :: int
  members :: "organizationMember list"
  ratings :: "rating list"
  messages :: "message list"

text \<open>Every \<^verbatim>\<open>throw new HttpException(status, message)\<close> of the controller is the
  error value \<open>HttpException status message\<close>. The store's own failures, which the
  controller does not catch, are \<open>UniqueConstraintViolation\<close> and \<open>RecordNotFound\<close>.\<close>

datatype error =
    HttpException int string
  | UniqueConstraintViolation
  | RecordNotFound

text \<open>The request: \<open>req.user.uid\<close>, the two path parameters after \<open>parseInt\<close>, and
  the body. An element of \<open>body.formats\<close> is a number or \<open>null\<close>.\<close>

record body =
  body_comments :: "string option"
  body_formats :: "int option list option"
  body_categories :: "int option list option"

record request =
  req_uid :: string
  req_talkId :: int
  req_eventId :: int
  req_body :: body

text \<open>A nested relation write of the ORM: \<open>{ set: [...], connect: [...] }\<close>, either
  part possibly absent.\<close>

record relation_write =
  rel_set :: "int list option"
  rel_connect :: "int list option"

record proposal_data =
  d_title :: string
  d_abstract :: string
  d_level :: "string option"
  d_language :: "string option"
  d_references :: "string option"
  d_comments :: "string option"
  d_speakers :: relation_write
  d_formats :: relation_write
  d_categories :: relation_write

type_synonym cfp_eval = "eventType \<Rightarrow> int option \<Rightarrow> int option \<Rightarrow> bool"

type_synonym 'a result = "(error + 'a) \<times> store"

section \<open>Repositories\<close>

text \<open>
  The repositories (\<^verbatim>\<open>server/src/db/*.repository.ts\<close>) and the CFP evaluator
  (\<^verbatim>\<open>server/src/common/cfp-dates.ts\<close>) are imported by the controller; they are
  modelled from the specification's store contract (equality-filtered lookups and
  single-row keyed writes) and data model.
\<close>

text \<open>Modelled from the spec: \<^verbatim>\<open>usersRepository.getUserByUid\<close> is missing; the identity
  resolver maps an external uid to a user row or absence.\<close>

definition getUserByUid :: "store \<Rightarrow> string \<Rightarrow> user option" where
  "getUserByUid s uid = find (\<lambda>u. user_uid u = uid) (users s)"

text \<open>Modelled from the spec: \<^verbatim>\<open>talksRepository.getTalk\<close> is missing; it resolves a talk
  by id together with its speakers (the many-to-many relation to users).\<close>

definition withSpeakers :: "store \<Rightarrow> talk_row \<Rightarrow> talk" where
  "withSpeakers s r =
     \<lparr> t_id = talk_id r, t_title = talk_title r, t_abstract = talk_abstract r,
       t_level = talk_level r, t_language = talk_language r,
       t_references = talk_references r,
       t_speakers = filter (\<lambda>u. user_id u \<in> set (talk_speakerIds r)) (users s) \<rparr>"

definition getTalk :: "store \<Rightarrow> int \<Rightarrow> talk option" where
  "getTalk s talkId = map_option (withSpeakers s) (find (\<lambda>r. talk_id r = talkId) (talks s))"

text \<open>Modelled from the spec: \<^verbatim>\<open>eventRepository.getEventById\<close> is missing; it resolves an
  event by id.\<close>

definition getEventById :: "store \<Rightarrow> int \<Rightarrow> event option" where
  "getEventById s eventId = find (\<lambda>e. event_id e = eventId) (events s)"

text \<open>Modelled from the spec: \<^verbatim>\<open>proposalRepository.findUserProposalsForEvent\<close> is missing;
  it returns the user's proposals for the event, that is the proposals of the event that
  have the user among their speakers.\<close>

definition findUserProposalsForEvent :: "store \<Rightarrow> int \<Rightarrow> int \<Rightarrow> proposal list" where
  "findUserProposalsForEvent s eventId userId =
     filter (\<lambda>p. proposal_eventId p = eventId \<and> userId \<in> set (proposal_speakers p))
       (proposals s)"

text \<open>Modelled from the spec: \<^verbatim>\<open>proposalRepository.getProposalForEvent\<close> is missing; it
  locates the single proposal of the pair (talkId, eventId).\<close>

definition getProposalForEvent :: "store \<Rightarrow> int \<Rightarrow> int \<Rightarrow> proposal option" where
  "getProposalForEvent s talkId eventId =
     find (\<lambda>p. proposal_talkId p = talkId \<and> proposal_eventId p = eventId) (proposals s)"

text \<open>Modelled from the spec: the ORM's nested relation write is missing. Applied to the
  ids currently associated, \<open>set\<close> replaces them and \<open>connect\<close> adds to them; an
  absent part does nothing. A relation holds an id once.\<close>

definition applyRelation :: "int list \<Rightarrow> relation_write \<Rightarrow> int list" where
  "applyRelation cur w =
     remdups ((case rel_set w of None \<Rightarrow> cur | Some ids \<Rightarrow> ids) @
              (case rel_connect w of None \<Rightarrow> [] | Some ids \<Rightarrow> ids))"

text \<open>Modelled from the spec: the write of a proposal's columns and relations is
  missing. Every column of the data overwrites the row's, and every relation write is
  applied to the row's relation; the id, the talk, the event and the status are not part
  of the data.\<close>

definition writeProposal :: "proposal_data \<Rightarrow> proposal \<Rightarrow> proposal" where
  "writeProposal d p =
     p \<lparr> proposal_title := d_title d, proposal_abstract := d_abstract d,
         proposal_level := d_level d, proposal_language := d_language d,
         proposal_references := d_references d, proposal_comments := d_comments d,
         proposal_speakers := applyRelation (proposal_speakers p) (d_speakers d),
         proposal_formats := applyRelation (proposal_formats p) (d_formats d),
         proposal_categories := applyRelation (proposal_categories p) (d_categories d) \<rparr>"

text \<open>Modelled from the spec: \<^verbatim>\<open>proposalRepository.updateProposal\<close> is missing; a
  single-row write keyed by the proposal id, which fails when no such row exists.\<close>

definition updateProposal :: "store \<Rightarrow> int \<Rightarrow> proposal_data \<Rightarrow> unit result" where
  "updateProposal s pid d =
     (if list_ex (\<lambda>p. proposal_id p = pid) (proposals s)
      then (Inr (),
            s \<lparr> proposals :=
                  map (\<lambda>p. if proposal_id p = pid then writeProposal d p else p)
                    (proposals s) \<rparr>)
      else (Inl RecordNotFound, s))"

text \<open>Modelled from the spec: \<^verbatim>\<open>proposalRepository.createProposal\<close> is missing; it inserts
  a row with a fresh id and the initial status, and the store's uniqueness constraint on
  (talkId, eventId) makes it fail when the pair already has a row.\<close>

definition createProposal :: "store \<Rightarrow> int \<Rightarrow> int \<Rightarrow> proposal_data \<Rightarrow> unit result" where
  "createProposal s talkId eventId d =
     (if list_ex (\<lambda>p. proposal_talkId p = talkId \<and> proposal_eventId p = eventId)
           (proposals s)
      then (Inl UniqueConstraintViolation, s)
      else (Inr (),
            s \<lparr> proposals := proposals s @
                  [writeProposal d
                    \<lparr> proposal_id = nextProposalId s, proposal_talkId = talkId,
                      proposal_eventId = eventId, proposal_title = [],
                      proposal_abstract = [], proposal_level = None,
                      proposal_language = None, proposal_references = None,
                      proposal_comments = None, proposal_status = ''SUBMITTED'',
                      proposal_speakers = [], proposal_formats = [],
                      proposal_categories = [] \<rparr>],
                nextProposalId := nextProposalId s + 1 \<rparr>))"

text \<open>Modelled from the spec: \<^verbatim>\<open>proposalRepository.deleteProposal\<close> is missing; it deletes
  the row outright.\<close>

definition deleteProposal :: "store \<Rightarrow> int \<Rightarrow> unit result" where
  "deleteProposal s pid =
     (if list_ex (\<lambda>p. proposal_id p = pid) (proposals s)
      then (Inr (), s \<lparr> proposals := filter (\<lambda>p. proposal_id p \<noteq> pid) (proposals s) \<rparr>)
      else (Inl RecordNotFound, s))"

text \<open>Modelled from the spec: \<^verbatim>\<open>isCfpOpened\<close> is missing. A conference is open when
  \<open>now\<close> lies within \<open>[cfpStart, cfpEnd]\<close>; a type without a fixed window is open when
  it has no bounds, and otherwise within the bounds it has. The controller below takes
  the evaluator as a parameter, so its theorems hold for every evaluator.\<close>

definition isCfpOpened :: "int \<Rightarrow> cfp_eval" where
  "isCfpOpened now ty cfpStart cfpEnd =
     (case ty of
        CONFERENCE \<Rightarrow>
          (case (cfpStart, cfpEnd) of
             (Some a, Some b) \<Rightarrow> a \<le> now \<and> now \<le> b
           | _ \<Rightarrow> False)
      | MEETUP \<Rightarrow>
          (case cfpStart of None \<Rightarrow> True | Some a \<Rightarrow> a \<le> now) \<and>
          (case cfpEnd of None \<Rightarrow> True | Some b \<Rightarrow> now \<le> b))"

section \<open>The speaker controller\<close>

text \<open>lodash's \<open>isEmpty\<close> on an optional array: true when it is absent or has no element.\<close>

definition isEmpty :: "'a list option \<Rightarrow> bool" where
  "isEmpty v = (case v of None \<Rightarrow> True | Some xs \<Rightarrow> xs = [])"

text \<open>\<^verbatim>\<open>ids.filter(Boolean)\<close>: drops \<open>null\<close> and \<open>0\<close>.\<close>

definition filterBoolean :: "int option list \<Rightarrow> int list" where
  "filterBoolean ids = map the (filter (\<lambda>x. x \<noteq> None \<and> x \<noteq> Some 0) ids)"

text \<open>Lines 157 to 163: the ids to connect, left undefined when the body gives no
  non-empty array.\<close>

definition connectIds :: "int option list option \<Rightarrow> int list option" where
  "connectIds v =
     (case v of
        None \<Rightarrow> None
      | Some ids \<Rightarrow> if length ids > 0 then Some (filterBoolean ids) else None)"

text \<open>\<open>!!event.maxProposals\<close>: a number other than 0.\<close>

definition truthy :: "jsnum \<Rightarrow> bool" where
  "truthy v = (case v of Num n \<Rightarrow> n \<noteq> 0 | _ \<Rightarrow> False)"

text \<open>\<open>proposals.length === event.maxProposals\<close>.\<close>

definition lengthEquals :: "'a list \<Rightarrow> jsnum \<Rightarrow> bool" where
  "lengthEquals xs v = (case v of Num n \<Rightarrow> int (length xs) = n | _ \<Rightarrow> False)"

definition isUserSpeaker :: "talk \<Rightarrow> string \<Rightarrow> bool" where
  "isUserSpeaker t uid = list_ex (\<lambda>speaker. user_uid speaker = uid) (t_speakers t)"

text \<open>The object passed to \<open>updateProposal\<close> (lines 166 to 185).\<close>

definition updateData :: "talk \<Rightarrow> body \<Rightarrow> proposal_data" where
  "updateData t b =
     \<lparr> d_title = t_title t, d_abstract = t_abstract t, d_level = t_level t,
       d_language = t_language t, d_references = t_references t,
       d_comments = body_comments b,
       d_speakers = \<lparr> rel_set = Some [], rel_connect = Some (map user_id (t_speakers t)) \<rparr>,
       d_formats = \<lparr> rel_set = Some [], rel_connect = connectIds (body_formats b) \<rparr>,
       d_categories = \<lparr> rel_set = Some [], rel_connect = connectIds (body_categories b) \<rparr> \<rparr>"

text \<open>The object passed to \<open>createProposal\<close> (lines 189 to 205).\<close>

definition createData :: "talk \<Rightarrow> body \<Rightarrow> proposal_data" where
  "createData t b =
     \<lparr> d_title = t_title t, d_abstract = t_abstract t, d_level = t_level t,
       d_language = t_language t, d_references = t_references t,
       d_comments = body_comments b,
       d_speakers = \<lparr> rel_set = None, rel_connect = Some (map user_id (t_speakers t)) \<rparr>,
       d_formats = \<lparr> rel_set = None, rel_connect = connectIds (body_formats b) \<rparr>,
       d_categories = \<lparr> rel_set = None, rel_connect = connectIds (body_categories b) \<rparr> \<rparr>"

text \<open>\<open>submitTalk\<close>, lines 121 to 209. The result pairs what the handler returns or
  throws with the store it leaves.\<close>

definition submitTalk :: "cfp_eval \<Rightarrow> store \<Rightarrow> request \<Rightarrow> unit result" where
  "submitTalk cfpOpened s req =
     (case getUserByUid s (req_uid req) of
        None \<Rightarrow> (Inl (HttpException 404 ''User not found''), s)
      | Some user \<Rightarrow>
     (case getTalk s (req_talkId req) of
        None \<Rightarrow> (Inl (HttpException 404 ''Talk not found''), s)
      | Some talk \<Rightarrow>
     if \<not> isUserSpeaker talk (req_uid req)
     then (Inl (HttpException 403 ''Forbidden''), s)
     else
     (case getEventById s (req_eventId req) of
        None \<Rightarrow> (Inl (HttpException 404 ''Event not found''), s)
      | Some event \<Rightarrow>
     if \<not> cfpOpened (event_type event) (event_cfpStart event) (event_cfpEnd event)
     then (Inl (HttpException 403 ''CFP is closed''), s)
     else if event_formatsRequired event \<and> isEmpty (body_formats (req_body req))
     then (Inl (HttpException 400 ''Formats are required for the event''), s)
     else if event_categoriesRequired event \<and> isEmpty (body_categories (req_body req))
     then (Inl (HttpException 400 ''Categories are required for the event''), s)
     else
     (let proposals = findUserProposalsForEvent s (req_eventId req) (user_id user) in
      case find (\<lambda>p. proposal_talkId p = req_talkId req) proposals of
        Some proposal \<Rightarrow>
          updateProposal s (proposal_id proposal) (updateData talk (req_body req))
      | None \<Rightarrow>
          if truthy (event_maxProposals event)
             \<and> lengthEquals proposals (event_maxProposals event)
          then (Inl (HttpException 403 ''Max proposals reached''), s)
          else createProposal s (req_talkId req) (req_eventId req)
                 (createData talk (req_body req))))))"

text \<open>\<open>unsubmitTalk\<close>, lines 211 to 244.\<close>

definition unsubmitTalk :: "cfp_eval \<Rightarrow> store \<Rightarrow> request \<Rightarrow> unit result" where
  "unsubmitTalk cfpOpened s req =
     (case getUserByUid s (req_uid req) of
        None \<Rightarrow> (Inl (HttpException 404 ''User not found''), s)
      | Some user \<Rightarrow>
     (case getTalk s (req_talkId req) of
        None \<Rightarrow> (Inl (HttpException 404 ''Talk not found''), s)
      | Some talk \<Rightarrow>
     if \<not> isUserSpeaker talk (req_uid req)
     then (Inl (HttpException 403 ''Forbidden''), s)
     else
     (case getEventById s (req_eventId req) of
        None \<Rightarrow> (Inl (HttpException 404 ''Event not found''), s)
      | Some event \<Rightarrow>
     if \<not> cfpOpened (event_type event) (event_cfpStart event) (event_cfpEnd event)
     then (Inl (HttpException 403 ''CFP is closed''), s)
     else
     (case getProposalForEvent s (req_talkId req) (req_eventId req) of
        None \<Rightarrow> (Inl (HttpException 404 ''Proposal not found''), s)
      | Some proposal \<Rightarrow> deleteProposal s (proposal_id proposal)))))"

section \<open>The store's uniqueness constraints\<close>

text \<open>Modelled from the spec: the relational schema is missing. Its uniqueness
  constraints on the tables the speaker controller reads: a uid names one user, a
  proposal id names one row, and a pair (talkId, eventId) has at most one proposal.\<close>

definition store_ok :: "store \<Rightarrow> bool" where
  "store_ok s \<longleftrightarrow>
     distinct (map user_uid (users s)) \<and>
     distinct (map proposal_id (proposals s)) \<and>
     distinct (map (\<lambda>p. (proposal_talkId p, proposal_eventId p)) (proposals s))"

text \<open>The number of proposal rows of a pair (talkId, eventId).\<close>

definition proposalRows :: "store \<Rightarrow> int \<Rightarrow> int \<Rightarrow> nat" where
  "proposalRows s talkId eventId =
     length (filter (\<lambda>p. proposal_talkId p = talkId \<and> proposal_eventId p = eventId)
               (proposals s))"

text \<open>All validation checks of \<open>submitTalk\<close> (lines 126 to 152) pass, with \<open>u\<close>, \<open>t\<close>
  and \<open>e\<close> the requester, talk and event they resolve.\<close>

definition checksPass :: "cfp_eval \<Rightarrow> store \<Rightarrow> request \<Rightarrow> user \<Rightarrow> talk \<Rightarrow> event \<Rightarrow> bool" where
  "checksPass cfpOpened s req u t e \<longleftrightarrow>
     getUserByUid s (req_uid req) = Some u \<and>
     getTalk s (req_talkId req) = Some t \<and>
     isUserSpeaker t (req_uid req) \<and>
     getEventById s (req_eventId req) = Some e \<and>
     cfpOpened (event_type e) (event_cfpStart e) (event_cfpEnd e) \<and>
     \<not> (event_formatsRequired e \<and> isEmpty (body_formats (req_body req))) \<and>
     \<not> (event_categoriesRequired e \<and> isEmpty (body_categories (req_body req)))"

text \<open>The requester's proposals for the event of the request, as line 154 reads them.\<close>

definition userProposals :: "store \<Rightarrow> request \<Rightarrow> user \<Rightarrow> proposal list" where
  "userProposals s req u = findUserProposalsForEvent s (req_eventId req) (user_id u)"

text \<open>Line 155: the requester's proposal for the talk of the request, if any.\<close>

definition existingProposal :: "store \<Rightarrow> request \<Rightarrow> user \<Rightarrow> proposal option" where
  "existingProposal s req u =
     find (\<lambda>p. proposal_talkId p = req_talkId req) (userProposals s req u)"

section \<open>A sample store\<close>

text \<open>The scenario of the specification: one conference whose call for papers runs
  from time 0 to time 100 and accepts one proposal per speaker, two users, and two talks
  of the first user.\<close>

definition ben :: user where
  "ben = \<lparr> user_id = 1, user_uid = ''ben'', user_name = ''Ben'' \<rparr>"

definition other :: user where
  "other = \<lparr> user_id = 2, user_uid = ''other'', user_name = ''Other'' \<rparr>"

definition talkA :: talk_row where
  "talkA = \<lparr> talk_id = 1, talk_title = ''Talk A'', talk_abstract = ''first draft'',
     talk_level = Some ''BEGINNER'', talk_language = Some ''en'', talk_references = None,
     talk_speakerIds = [1] \<rparr>"

definition talkB :: talk_row where
  "talkB = \<lparr> talk_id = 2, talk_title = ''Talk B'', talk_abstract = ''second talk'',
     talk_level = None, talk_language = None, talk_references = None,
     talk_speakerIds = [1] \<rparr>"

definition conf :: event where
  "conf = \<lparr> event_id = 1, event_type = CONFERENCE, event_cfpStart = Some 0,
     event_cfpEnd = Some 100, event_formatsRequired = False,
     event_categoriesRequired = False, event_maxProposals = Num 1,
     event_ownerId = Some 1, event_organizationId = None \<rparr>"

definition store0 :: store where
  "store0 = \<lparr> users = [ben, other], talks = [talkA, talkB], events = [conf],
     proposals = [], nextProposalId = 1, members = [], ratings = [], messages = [] \<rparr>"

definition plainBody :: body where
  "plainBody = \<lparr> body_comments = Some ''hello'', body_formats = None,
     body_categories = None \<rparr>"

definition submitA :: request where
  "submitA = \<lparr> req_uid = ''ben'', req_talkId = 1, req_eventId = 1, req_body = plainBody \<rparr>"

definition submitB :: request where
  "submitB = \<lparr> req_uid = ''ben'', req_talkId = 2, req_eventId = 1, req_body = plainBody \<rparr>"

text \<open>The proposal that submitting talk A creates in the sample store, and the store
  holding it.\<close>

definition proposalA :: proposal where
  "proposalA = \<lparr> proposal_id = 1, proposal_talkId = 1, proposal_eventId = 1,
     proposal_title = ''Talk A'', proposal_abstract = ''first draft'',
     proposal_level = Some ''BEGINNER'', proposal_language = Some ''en'',
     proposal_references = None, proposal_comments = Some ''hello'',
     proposal_status = ''SUBMITTED'', proposal_speakers = [1], proposal_formats = [],
     proposal_categories = [] \<rparr>"

definition store1 :: store where
  "store1 = store0 \<lparr> proposals := [proposalA], nextProposalId := 2 \<rparr>"

text \<open>Variants of the sample: a third talk, a second proposal of the first user, the
  conference with its cap set to 0, to \<open>null\<close> and left undefined, and a store in which
  the cap was lowered to 1 after two submissions.\<close>

definition talkC :: talk_row where
  "talkC = \<lparr> talk_id = 3, talk_title = ''Talk C'', talk_abstract = ''third talk'',
     talk_level = None, talk_language = None, talk_references = None,
     talk_speakerIds = [1, 2] \<rparr>"

definition proposalB :: proposal where
  "proposalB = \<lparr> proposal_id = 2, proposal_talkId = 2, proposal_eventId = 1,
     proposal_title = ''Talk B'', proposal_abstract = ''second talk'',
     proposal_level = None, proposal_language = None,
     proposal_references = None, proposal_comments = None,
     proposal_status = ''SUBMITTED'', proposal_speakers = [1], proposal_formats = [7],
     proposal_categories = [9] \<rparr>"

definition submitC :: request where
  "submitC = \<lparr> req_uid = ''ben'', req_talkId = 3, req_eventId = 1, req_body = plainBody \<rparr>"

definition storeCap :: "jsnum \<Rightarrow> store" where
  "storeCap cap = store0 \<lparr> events := [conf \<lparr> event_maxProposals := cap \<rparr>] \<rparr>"

definition storeLowered :: store where
  "storeLowered = store0 \<lparr> talks := [talkA, talkB, talkC],
     proposals := [proposalA, proposalB], nextProposalId := 3 \<rparr>"

text \<open>Requests on the sample store by any requester, talk and event, and the conference
  with formats or categories required.\<close>

definition submitBy :: "string \<Rightarrow> int \<Rightarrow> int \<Rightarrow> request" where
  "submitBy uid talkId eventId =
     \<lparr> req_uid = uid, req_talkId = talkId, req_eventId = eventId, req_body = plainBody \<rparr>"

definition storeRequired :: "bool \<Rightarrow> bool \<Rightarrow> store" where
  "storeRequired f c =
     store0 \<lparr> events := [conf \<lparr> event_formatsRequired := f,
                                  event_categoriesRequired := c \<rparr>] \<rparr>"

text \<open>The first five checks, which \<open>submitTalk\<close> and \<open>unsubmitTalk\<close> share (lines 216
  to 236): the requester, the talk and the event resolve, the requester is a speaker of
  the talk and the call for papers is open.\<close>

definition accessPass :: "cfp_eval \<Rightarrow> store \<Rightarrow> request \<Rightarrow> user \<Rightarrow> talk \<Rightarrow> event \<Rightarrow> bool" where
  "accessPass cfpOpened s req u t e \<longleftrightarrow>
     getUserByUid s (req_uid req) = Some u \<and>
     getTalk s (req_talkId req) = Some t \<and>
     isUserSpeaker t (req_uid req) \<and>
     getEventById s (req_eventId req) = Some e \<and>
     cfpOpened (event_type e) (event_cfpStart e) (event_cfpEnd e)"




section \<open>The organizer handlers\<close>

text \<open>
  The organizer controllers are exercised by the end-to-end tests of
  \<^verbatim>\<open>/api/organizer/events/:id/proposals\<close>, but their code is not among the sources; the
  definitions of this section follow the specification's sections 4.1, 4.4, 4.5 and 7.
\<close>

datatype entity = User | Event | Talk | Proposal | Message

datatype failure = Unauthenticated | NotFound entity | Forbidden | ValidationFailed

text \<open>Modelled from the spec: the error mapping of the organizer endpoints is missing;
  every member of the taxonomy maps to its status.\<close>

definition statusOf :: "failure \<Rightarrow> int" where
  "statusOf f =
     (case f of
        Unauthenticated \<Rightarrow> 401
      | NotFound _ \<Rightarrow> 404
      | Forbidden \<Rightarrow> 403
      | ValidationFailed \<Rightarrow> 400)"

text \<open>Modelled from the spec: the store lookup \<open>findOrganizationMember\<close> is missing; the
  membership of a user in the event's organization, if the event has one.\<close>

definition findOrganizationMember :: "store \<Rightarrow> event \<Rightarrow> user \<Rightarrow> organizationMember option" where
  "findOrganizationMember s e u =
     (case event_organizationId e of
        None \<Rightarrow> None
      | Some orga \<Rightarrow>
          find (\<lambda>m. member_organizationId m = orga \<and> member_userId m = user_id u)
            (members s))"

text \<open>Modelled from the spec: the authorization gate of the event-scoped organizer
  endpoints is missing. Its rules apply in order: no identity is \<open>Unauthenticated\<close>; an
  unresolvable identity is \<open>UserNotFound\<close>; a missing event is \<open>EventNotFound\<close>; a user
  who is neither the event's direct owner nor a member of its organization is
  \<open>Forbidden\<close>; on a mutation endpoint a membership with the reviewer role is
  \<open>Forbidden\<close>. The direct owner is authorized by ownership.\<close>

definition authorizationGate :: "store \<Rightarrow> string option \<Rightarrow> int \<Rightarrow> bool \<Rightarrow> failure + user" where
  "authorizationGate s identity eventId mutation =
     (case identity of
        None \<Rightarrow> Inl Unauthenticated
      | Some uid \<Rightarrow>
     (case getUserByUid s uid of
        None \<Rightarrow> Inl (NotFound User)
      | Some u \<Rightarrow>
     (case getEventById s eventId of
        None \<Rightarrow> Inl (NotFound Event)
      | Some e \<Rightarrow>
          if event_ownerId e = Some (user_id u) then Inr u
          else
            (case findOrganizationMember s e u of
               None \<Rightarrow> Inl Forbidden
             | Some m \<Rightarrow>
                 if mutation \<and> member_role m = REVIEWER then Inl Forbidden else Inr u))))"

text \<open>Modelled from the spec: the mutation endpoints themselves are missing; the status
  an event-scoped organizer mutation answers with is the gate's failure, or 204 once the
  gate authorizes.\<close>

definition mutationStatus :: "store \<Rightarrow> string option \<Rightarrow> int \<Rightarrow> int" where
  "mutationStatus s identity eventId =
     (case authorizationGate s identity eventId True of
        Inl f \<Rightarrow> statusOf f
      | Inr _ \<Rightarrow> 204)"

text \<open>Modelled from the spec: the accepted rating range and the defined feelings are
  missing; they are parameters of the rating handler.\<close>

record ratingRules =
  minRating :: int
  maxRating :: int
  feelings :: "string list"

definition validRating :: "ratingRules \<Rightarrow> int option \<Rightarrow> string option \<Rightarrow> bool" where
  "validRating rules r f \<longleftrightarrow>
     (case r of None \<Rightarrow> True | Some n \<Rightarrow> minRating rules \<le> n \<and> n \<le> maxRating rules) \<and>
     (case f of None \<Rightarrow> True | Some v \<Rightarrow> v \<in> set (feelings rules))"

definition isRatingOf :: "int \<Rightarrow> int \<Rightarrow> rating \<Rightarrow> bool" where
  "isRatingOf userId proposalId row \<longleftrightarrow>
     rating_userId row = userId \<and> rating_proposalId row = proposalId"

text \<open>Modelled from the spec: the read-back of the rating of (userId, proposalId), the
  tests' \<^verbatim>\<open>prisma.rating.findUnique\<close>.\<close>

definition findRating :: "store \<Rightarrow> int \<Rightarrow> int \<Rightarrow> rating option" where
  "findRating s userId proposalId = find (isRatingOf userId proposalId) (ratings s)"

text \<open>Modelled from the spec: the store writes \<open>deleteRating\<close> and \<open>upsertRating\<close> are
  missing; keyed by (userId, proposalId).\<close>

definition deleteRating :: "store \<Rightarrow> int \<Rightarrow> int \<Rightarrow> store" where
  "deleteRating s userId proposalId =
     s \<lparr> ratings := filter (\<lambda>row. \<not> isRatingOf userId proposalId row) (ratings s) \<rparr>"

definition upsertRating :: "store \<Rightarrow> int \<Rightarrow> int \<Rightarrow> int option \<Rightarrow> string option \<Rightarrow> store" where
  "upsertRating s userId proposalId r f =
     (if list_ex (isRatingOf userId proposalId) (ratings s)
      then s \<lparr> ratings :=
                 map (\<lambda>row. if isRatingOf userId proposalId row
                            then row \<lparr> rating_rating := r, rating_feeling := f \<rparr>
                            else row)
                   (ratings s) \<rparr>
      else s \<lparr> ratings := ratings s @
                 [\<lparr> rating_userId = userId, rating_proposalId = proposalId,
                    rating_rating = r, rating_feeling = f \<rparr>] \<rparr>)"

text \<open>Modelled from the spec: the rating sub-handler \<open>rate\<close> is missing. Invalid input is
  \<open>ValidationFailed\<close>; a rating and a feeling that are both absent delete the row of
  (userId, proposalId); anything else is upserted under that key.\<close>

definition rate ::
  "ratingRules \<Rightarrow> store \<Rightarrow> int \<Rightarrow> int \<Rightarrow> int option \<Rightarrow> string option \<Rightarrow> (failure + unit) \<times> store"
where
  "rate rules s proposalId userId r f =
     (if \<not> validRating rules r f then (Inl ValidationFailed, s)
      else if r = None \<and> f = None then (Inr (), deleteRating s userId proposalId)
      else (Inr (), upsertRating s userId proposalId r f))"

text \<open>Modelled from the spec: the messaging sub-handler is missing. Update and delete
  require the message to exist and to belong to the requesting user for that proposal;
  otherwise they fail \<open>MessageNotFound\<close>. The tests show that an update without a
  message text is rejected as invalid first.\<close>

definition ownMessage :: "store \<Rightarrow> int \<Rightarrow> int \<Rightarrow> int \<Rightarrow> message option" where
  "ownMessage s userId proposalId messageId =
     (case find (\<lambda>m. message_id m = messageId) (messages s) of
        None \<Rightarrow> None
      | Some m \<Rightarrow>
          if message_userId m = userId \<and> message_proposalId m = proposalId
          then Some m else None)"

definition updateMessage ::
  "store \<Rightarrow> int \<Rightarrow> int \<Rightarrow> int \<Rightarrow> string option \<Rightarrow> (failure + unit) \<times> store"
where
  "updateMessage s userId proposalId messageId newText =
     (if isEmpty newText then (Inl ValidationFailed, s)
      else
        (case ownMessage s userId proposalId messageId of
           None \<Rightarrow> (Inl (NotFound Message), s)
         | Some m \<Rightarrow>
             (Inr (),
              s \<lparr> messages :=
                    map (\<lambda>x. if message_id x = messageId
                             then x \<lparr> message_message := the newText \<rparr> else x)
                      (messages s) \<rparr>)))"

definition deleteMessage ::
  "store \<Rightarrow> int \<Rightarrow> int \<Rightarrow> int \<Rightarrow> (failure + unit) \<times> store"
where
  "deleteMessage s userId proposalId messageId =
     (case ownMessage s userId proposalId messageId of
        None \<Rightarrow> (Inl (NotFound Message), s)
      | Some m \<Rightarrow>
          (Inr (), s \<lparr> messages := filter (\<lambda>x. message_id x \<noteq> messageId) (messages s) \<rparr>))"

section \<open>A sample organization\<close>

text \<open>The sample with an organization: a second event that belongs to organization 1
  and has no direct owner, the second user a reviewer of that organization; a rating rule
  set; and a message of the second user under the first proposal.\<close>

definition meetup :: event where
  "meetup = \<lparr> event_id = 2, event_type = MEETUP, event_cfpStart = None,
     event_cfpEnd = None, event_formatsRequired = False,
     event_categoriesRequired = False, event_maxProposals = Null,
     event_ownerId = None, event_organizationId = Some 1 \<rparr>"

definition reviewer :: organizationMember where
  "reviewer = \<lparr> member_userId = 2, member_organizationId = 1, member_role = REVIEWER \<rparr>"

definition storeOrga :: store where
  "storeOrga = store1 \<lparr> events := [conf, meetup], members := [reviewer] \<rparr>"

definition sampleRules :: ratingRules where
  "sampleRules = \<lparr> minRating = 0, maxRating = 5,
     feelings = [''LOVE'', ''HATE'', ''NEUTRAL'', ''NO_OPINION''] \<rparr>"

definition hello :: message where
  "hello = \<lparr> message_id = 1, message_userId = 2, message_proposalId = 1,
     message_message = ''Hello world'', message_channel = ''ORGANIZER'' \<rparr>"

definition storeMessages :: store where
  "storeMessages = store1 \<lparr> messages := [hello] \<rparr>"

section \<open>Allocated ids and a late co-speaker\<close>




section \<open>Auxiliary facts\<close>

lemma find_None_conv: "find P xs = None \<longleftrightarrow> \<not> list_ex P xs"
  by (induction xs) auto

lemma find_SomeD: "find P xs = Some x \<Longrightarrow> x \<in> set xs \<and> P x"
  by (induction xs) (auto split: if_splits)




lemma writeProposal_keys [simp]:
  "proposal_id (writeProposal d p) = proposal_id p"
  "proposal_talkId (writeProposal d p) = proposal_talkId p"
  "proposal_eventId (writeProposal d p) = proposal_eventId p"
  "proposal_status (writeProposal d p) = proposal_status p"
  by (simp_all add: writeProposal_def)

lemma submitTalk_checked:
  assumes "checksPass cfp s req u t e"
  shows "submitTalk cfp s req =
     (case existingProposal s req u of
        Some p \<Rightarrow> updateProposal s (proposal_id p) (updateData t (req_body req))
      | None \<Rightarrow>
          if truthy (event_maxProposals e)
             \<and> lengthEquals (userProposals s req u) (event_maxProposals e)
          then (Inl (HttpException 403 ''Max proposals reached''), s)
          else createProposal s (req_talkId req) (req_eventId req)
                 (createData t (req_body req)))"
  using assms
  by (auto simp: checksPass_def submitTalk_def existingProposal_def userProposals_def Let_def
      split: option.splits)







lemma find_Some_ex: "list_ex P xs \<Longrightarrow> \<exists>x. find P xs = Some x"
  by (cases "find P xs") (auto simp: find_None_conv)

lemma speakers_updateData [simp]:
  "proposal_speakers (writeProposal (updateData t b) p) = remdups (map user_id (t_speakers t))"
  by (simp add: writeProposal_def updateData_def applyRelation_def)

lemma existing_in_store:
  assumes "existingProposal s req u = Some p"
  shows "p \<in> set (proposals s)" "proposal_talkId p = req_talkId req"
    "proposal_eventId p = req_eventId req" "user_id u \<in> set (proposal_speakers p)"
  using find_SomeD[OF assms[unfolded existingProposal_def]]
  by (auto simp: userProposals_def findUserProposalsForEvent_def)


lemma updateProposal_ok:
  assumes "p \<in> set (proposals s)"
  shows "updateProposal s (proposal_id p) d =
    (Inr (), s \<lparr> proposals :=
        map (\<lambda>q. if proposal_id q = proposal_id p then writeProposal d q else q) (proposals s) \<rparr>)"
  using assms by (auto simp: updateProposal_def list_ex_iff)


lemmas sample_defs = ben_def other_def talkA_def talkB_def conf_def store0_def plainBody_def
  submitA_def submitB_def proposalA_def store1_def

lemmas repo_defs = getUserByUid_def getTalk_def withSpeakers_def getEventById_def
  findUserProposalsForEvent_def getProposalForEvent_def applyRelation_def writeProposal_def
  updateProposal_def createProposal_def deleteProposal_def isCfpOpened_def

lemmas ctrl_defs = isEmpty_def filterBoolean_def connectIds_def truthy_def lengthEquals_def
  isUserSpeaker_def updateData_def createData_def submitTalk_def unsubmitTalk_def
  userProposals_def existingProposal_def checksPass_def store_ok_def proposalRows_def

lemmas variant_defs = talkC_def proposalB_def submitC_def storeCap_def storeLowered_def

lemma createProposal_not_capped:
  "createProposal s T E d \<noteq> (Inl (HttpException c m), s')"
  by (simp add: createProposal_def)

lemma absent_pair_no_existing:
  assumes "getProposalForEvent s (req_talkId req) (req_eventId req) = None"
  shows "existingProposal s req u = None"
  using assms
  by (auto simp: getProposalForEvent_def existingProposal_def userProposals_def
      findUserProposalsForEvent_def find_None_conv list_ex_iff)

section \<open>The cap on proposals\<close>

text \<open>A cap of 0 is defined but not enforced: in the sample store with the cap set to 0
  the requester has exactly 0 proposals for the event and the talk has none, yet
  \<open>submitTalk\<close> creates the proposal instead of failing with "Max proposals reached".\<close>

theorem cap_zero_counterexample:
  "getUserByUid (storeCap (Num 0)) (req_uid submitA) = Some ben \<and>
   getEventById (storeCap (Num 0)) (req_eventId submitA) = Some (conf \<lparr> event_maxProposals := Num 0 \<rparr>) \<and>
   int (length (findUserProposalsForEvent (storeCap (Num 0)) (req_eventId submitA) (user_id ben))) = 0 \<and>
   getProposalForEvent (storeCap (Num 0)) (req_talkId submitA) (req_eventId submitA) = None \<and>
   submitTalk (isCfpOpened 50) (storeCap (Num 0)) submitA =
     (Inr (), storeCap (Num 0) \<lparr> proposals := [proposalA], nextProposalId := 2 \<rparr>) \<and>
   fst (submitTalk (isCfpOpened 50) (storeCap (Num 0)) submitA)
     \<noteq> Inl (HttpException 403 ''Max proposals reached'')"
  by (simp add: sample_defs variant_defs repo_defs ctrl_defs)

text \<open>C2, amended: cap enforcement. On a request that passes the validation checks, if
  the event's \<open>maxProposals\<close> is a number other than 0, the requester already has exactly
  that many proposals for the event and the pair (talk, event) has no proposal, then
  \<open>submitTalk\<close> fails with 403 "Max proposals reached" and leaves the store unchanged;
  and whenever the requester has a proposal for the talk, \<open>submitTalk\<close> is the update of
  that proposal and succeeds, whatever the cap.\<close>

theorem submitTalk_cap:
  assumes cp: "checksPass cfp s req u t e"
  shows "(\<forall>n. event_maxProposals e = Num n \<and> n \<noteq> 0 \<and>
              int (length (findUserProposalsForEvent s (req_eventId req) (user_id u))) = n \<and>
              getProposalForEvent s (req_talkId req) (req_eventId req) = None
            \<longrightarrow> submitTalk cfp s req = (Inl (HttpException 403 ''Max proposals reached''), s))
       \<and> (\<forall>p. existingProposal s req u = Some p
            \<longrightarrow> submitTalk cfp s req =
                  updateProposal s (proposal_id p) (updateData t (req_body req))
              \<and> fst (submitTalk cfp s req) = Inr ())"
proof (intro conjI allI impI)
  fix n
  assume h: "event_maxProposals e = Num n \<and> n \<noteq> 0 \<and>
      int (length (findUserProposalsForEvent s (req_eventId req) (user_id u))) = n \<and>
      getProposalForEvent s (req_talkId req) (req_eventId req) = None"
  then have "existingProposal s req u = None"
    by (simp add: absent_pair_no_existing)
  with h show "submitTalk cfp s req = (Inl (HttpException 403 ''Max proposals reached''), s)"
    by (simp add: submitTalk_checked[OF cp] truthy_def lengthEquals_def userProposals_def)
next
  fix p
  assume p: "existingProposal s req u = Some p"
  then show sub: "submitTalk cfp s req =
      updateProposal s (proposal_id p) (updateData t (req_body req))"
    by (simp add: submitTalk_checked[OF cp])
  from existing_in_store(1)[OF p] show "fst (submitTalk cfp s req) = Inr ()"
    by (simp add: sub updateProposal_ok)
qed

theorem submitTalk_cap_witness:
  "checksPass (isCfpOpened 50) store1 submitB ben (withSpeakers store1 talkB) conf \<and>
   event_maxProposals conf = Num 1 \<and>
   int (length (findUserProposalsForEvent store1 (req_eventId submitB) (user_id ben))) = 1 \<and>
   getProposalForEvent store1 (req_talkId submitB) (req_eventId submitB) = None \<and>
   submitTalk (isCfpOpened 50) store1 submitB =
     (Inl (HttpException 403 ''Max proposals reached''), store1) \<and>
   checksPass (isCfpOpened 50) store1 submitA ben (withSpeakers store1 talkA) conf \<and>
   existingProposal store1 submitA ben = Some proposalA \<and>
   fst (submitTalk (isCfpOpened 50) store1 submitA) = Inr ()"
proof -
  have cpB: "checksPass (isCfpOpened 50) store1 submitB ben (withSpeakers store1 talkB) conf"
    by (simp add: sample_defs repo_defs ctrl_defs)
  have capped: "event_maxProposals conf = Num 1 \<and> (1::int) \<noteq> 0 \<and>
      int (length (findUserProposalsForEvent store1 (req_eventId submitB) (user_id ben))) = 1 \<and>
      getProposalForEvent store1 (req_talkId submitB) (req_eventId submitB) = None"
    by (simp add: sample_defs repo_defs)
  have cpA: "checksPass (isCfpOpened 50) store1 submitA ben (withSpeakers store1 talkA) conf"
    by (simp add: sample_defs repo_defs ctrl_defs)
  have exA: "existingProposal store1 submitA ben = Some proposalA"
    by (simp add: sample_defs repo_defs ctrl_defs)
  from submitTalk_cap[OF cpB] capped
  have "submitTalk (isCfpOpened 50) store1 submitB =
      (Inl (HttpException 403 ''Max proposals reached''), store1)"
    by blast
  moreover from submitTalk_cap[OF cpA] exA
  have "fst (submitTalk (isCfpOpened 50) store1 submitA) = Inr ()"
    by blast
  ultimately show ?thesis using cpB capped cpA exA by simp
qed

lemma createProposal_fresh:
  assumes "getProposalForEvent s T E = None"
  shows "createProposal s T E d =
     (Inr (),
      s \<lparr> proposals := proposals s @
            [writeProposal d
              \<lparr> proposal_id = nextProposalId s, proposal_talkId = T,
                proposal_eventId = E, proposal_title = [],
                proposal_abstract = [], proposal_level = None,
                proposal_language = None, proposal_references = None,
                proposal_comments = None, proposal_status = ''SUBMITTED'',
                proposal_speakers = [], proposal_formats = [],
                proposal_categories = [] \<rparr>],
          nextProposalId := nextProposalId s + 1 \<rparr>)"
  using assms by (simp add: createProposal_def getProposalForEvent_def find_None_conv)

text \<open>C10: the cap check is a truthiness guard and a strict equality. On a request that
  passes the validation checks and for which the requester has no proposal for the talk
  (a non-update submit), \<open>submitTalk\<close> is rejected with "Max proposals reached" exactly
  when \<open>maxProposals\<close> is a number other than 0 equal to the requester's proposal count
  for the event. When the count strictly exceeds \<open>maxProposals\<close>, or \<open>maxProposals\<close> is
  0, \<open>null\<close> or \<open>undefined\<close>, the check passes and \<open>submitTalk\<close> is the call of
  \<open>createProposal\<close>, which, the pair (talk, event) having no row, appends a new
  proposal with a fresh id, a snapshot of the talk.\<close>

theorem cap_check_strict:
  assumes cp: "checksPass cfp s req u t e"
      and new: "existingProposal s req u = None"
  shows "(submitTalk cfp s req = (Inl (HttpException 403 ''Max proposals reached''), s)
            \<longleftrightarrow> (\<exists>n. event_maxProposals e = Num n \<and> n \<noteq> 0 \<and>
                     int (length (userProposals s req u)) = n))
       \<and> ((\<exists>n. event_maxProposals e = Num n \<and> n < int (length (userProposals s req u)))
            \<or> event_maxProposals e = Num 0 \<or> event_maxProposals e = Null
            \<or> event_maxProposals e = Undefined
          \<longrightarrow> submitTalk cfp s req =
                createProposal s (req_talkId req) (req_eventId req)
                  (createData t (req_body req))
            \<and> (getProposalForEvent s (req_talkId req) (req_eventId req) = None
               \<longrightarrow> (\<exists>row. submitTalk cfp s req =
                       (Inr (), s \<lparr> proposals := proposals s @ [row],
                                     nextProposalId := nextProposalId s + 1 \<rparr>)
                     \<and> proposal_id row = nextProposalId s
                     \<and> proposal_talkId row = req_talkId req
                     \<and> proposal_eventId row = req_eventId req
                     \<and> proposal_title row = t_title t
                     \<and> proposal_abstract row = t_abstract t)))"
proof -
  let ?capped = "truthy (event_maxProposals e) \<and>
      lengthEquals (userProposals s req u) (event_maxProposals e)"
  have sub: "submitTalk cfp s req =
      (if ?capped then (Inl (HttpException 403 ''Max proposals reached''), s)
       else createProposal s (req_talkId req) (req_eventId req) (createData t (req_body req)))"
    using submitTalk_checked[OF cp] new by simp
  have capped: "?capped \<longleftrightarrow> (\<exists>n. event_maxProposals e = Num n \<and> n \<noteq> 0 \<and>
      int (length (userProposals s req u)) = n)"
    by (cases "event_maxProposals e") (auto simp: truthy_def lengthEquals_def)
  have first: "submitTalk cfp s req = (Inl (HttpException 403 ''Max proposals reached''), s)
      \<longleftrightarrow> ?capped"
    using sub createProposal_not_capped by auto
  have second: "submitTalk cfp s req =
      createProposal s (req_talkId req) (req_eventId req) (createData t (req_body req))"
    if "(\<exists>n. event_maxProposals e = Num n \<and> n < int (length (userProposals s req u)))
        \<or> event_maxProposals e = Num 0 \<or> event_maxProposals e = Null
        \<or> event_maxProposals e = Undefined"
  proof -
    from that have "\<not> ?capped" by (auto simp: truthy_def lengthEquals_def)
    with sub show ?thesis by simp
  qed
  have third: "\<exists>row. createProposal s (req_talkId req) (req_eventId req)
        (createData t (req_body req)) =
          (Inr (), s \<lparr> proposals := proposals s @ [row],
                        nextProposalId := nextProposalId s + 1 \<rparr>)
        \<and> proposal_id row = nextProposalId s
        \<and> proposal_talkId row = req_talkId req
        \<and> proposal_eventId row = req_eventId req
        \<and> proposal_title row = t_title t
        \<and> proposal_abstract row = t_abstract t"
    if "getProposalForEvent s (req_talkId req) (req_eventId req) = None"
    unfolding createProposal_fresh[OF that]
    by (rule exI[where x = "writeProposal (createData t (req_body req))
              \<lparr> proposal_id = nextProposalId s, proposal_talkId = req_talkId req,
                proposal_eventId = req_eventId req, proposal_title = [],
                proposal_abstract = [], proposal_level = None,
                proposal_language = None, proposal_references = None,
                proposal_comments = None, proposal_status = ''SUBMITTED'',
                proposal_speakers = [], proposal_formats = [],
                proposal_categories = [] \<rparr>"])
       (simp add: writeProposal_def createData_def)
  from first capped second third show ?thesis by simp
qed


theorem cap_check_strict_witness:
  "submitTalk (isCfpOpened 50) store1 submitB =
     (Inl (HttpException 403 ''Max proposals reached''), store1) \<and>
   int (length (userProposals storeLowered submitC ben)) = 2 \<and>
   event_maxProposals conf = Num 1 \<and>
   (\<exists>row. submitTalk (isCfpOpened 50) storeLowered submitC =
       (Inr (), storeLowered \<lparr> proposals := proposals storeLowered @ [row],
                                nextProposalId := nextProposalId storeLowered + 1 \<rparr>)
      \<and> proposal_id row = 3 \<and> proposal_talkId row = 3 \<and> proposal_eventId row = 1) \<and>
   (\<exists>row. submitTalk (isCfpOpened 50) (storeCap (Num 0)) submitA =
       (Inr (), storeCap (Num 0) \<lparr> proposals := proposals (storeCap (Num 0)) @ [row],
                                    nextProposalId := nextProposalId (storeCap (Num 0)) + 1 \<rparr>)) \<and>
   (\<exists>row. submitTalk (isCfpOpened 50) (storeCap Null) submitA =
       (Inr (), storeCap Null \<lparr> proposals := proposals (storeCap Null) @ [row],
                                nextProposalId := nextProposalId (storeCap Null) + 1 \<rparr>)) \<and>
   (\<exists>row. submitTalk (isCfpOpened 50) (storeCap Undefined) submitA =
       (Inr (), storeCap Undefined \<lparr> proposals := proposals (storeCap Undefined) @ [row],
                                nextProposalId := nextProposalId (storeCap Undefined) + 1 \<rparr>))"
proof -
  have cpB: "checksPass (isCfpOpened 50) store1 submitB ben (withSpeakers store1 talkB) conf"
    and newB: "existingProposal store1 submitB ben = None"
    and eqB: "\<exists>n. event_maxProposals conf = Num n \<and> n \<noteq> 0 \<and>
        int (length (userProposals store1 submitB ben)) = n"
    by (simp_all add: sample_defs repo_defs ctrl_defs)
  from cap_check_strict[OF cpB newB] eqB
  have a: "submitTalk (isCfpOpened 50) store1 submitB =
      (Inl (HttpException 403 ''Max proposals reached''), store1)"
    by blast
  have cpC: "checksPass (isCfpOpened 50) storeLowered submitC ben
        (withSpeakers storeLowered talkC) conf"
    and newC: "existingProposal storeLowered submitC ben = None"
    and len: "int (length (userProposals storeLowered submitC ben)) = 2"
    and cap: "event_maxProposals conf = Num 1"
    and freshC: "getProposalForEvent storeLowered (req_talkId submitC) (req_eventId submitC)
        = None"
    and keys: "nextProposalId storeLowered = 3" "req_talkId submitC = 3"
      "req_eventId submitC = 1"
    by (simp_all add: sample_defs variant_defs repo_defs ctrl_defs)
  from len cap have over: "\<exists>n. event_maxProposals conf = Num n \<and>
      n < int (length (userProposals storeLowered submitC ben))"
    by simp
  from cap_check_strict[OF cpC newC] over freshC
  have "\<exists>row. submitTalk (isCfpOpened 50) storeLowered submitC =
       (Inr (), storeLowered \<lparr> proposals := proposals storeLowered @ [row],
                                nextProposalId := nextProposalId storeLowered + 1 \<rparr>)
      \<and> proposal_id row = nextProposalId storeLowered
      \<and> proposal_talkId row = req_talkId submitC
      \<and> proposal_eventId row = req_eventId submitC"
    by blast
  then have b: "\<exists>row. submitTalk (isCfpOpened 50) storeLowered submitC =
       (Inr (), storeLowered \<lparr> proposals := proposals storeLowered @ [row],
                                nextProposalId := nextProposalId storeLowered + 1 \<rparr>)
      \<and> proposal_id row = 3 \<and> proposal_talkId row = 3 \<and> proposal_eventId row = 1"
    by (simp only: keys)
  have c: "\<exists>row. submitTalk (isCfpOpened 50) (storeCap v) submitA =
       (Inr (), storeCap v \<lparr> proposals := proposals (storeCap v) @ [row],
                             nextProposalId := nextProposalId (storeCap v) + 1 \<rparr>)"
    if v: "v = Num 0 \<or> v = Null \<or> v = Undefined" for v
  proof -
    have cpv: "checksPass (isCfpOpened 50) (storeCap v) submitA ben
        (withSpeakers (storeCap v) talkA) (conf \<lparr> event_maxProposals := v \<rparr>)"
      and newv: "existingProposal (storeCap v) submitA ben = None"
      and freshv: "getProposalForEvent (storeCap v) (req_talkId submitA) (req_eventId submitA)
        = None"
      and capv: "event_maxProposals (conf \<lparr> event_maxProposals := v \<rparr>) = v"
      by (simp_all add: sample_defs variant_defs repo_defs ctrl_defs)
    from cap_check_strict[OF cpv newv] v freshv show ?thesis
      unfolding capv by blast
  qed
  from a len cap b c[of "Num 0"] c[of Null] c[of Undefined] show ?thesis
    by simp
qed

lemmas request_defs = submitBy_def storeRequired_def

section \<open>The validation checks\<close>

lemma submitTalk_mutates_checked:
  assumes "snd (submitTalk cfp s req) \<noteq> s"
  shows "\<exists>u t e. checksPass cfp s req u t e"
  using assms
  by (auto simp: checksPass_def submitTalk_def split: option.splits if_splits)

text \<open>C3: \<open>submitTalk\<close> validates in order, each failure with its own status and
  message, and mutates the store only once every check has passed. An unresolvable
  requester fails 404 "User not found"; then a missing talk fails 404 "Talk not found";
  then a requester who is not among the talk's speakers fails 403 "Forbidden"; then a
  missing event fails 404 "Event not found"; then a closed call for papers fails 403
  "CFP is closed"; then required formats with none supplied fail 400 "Formats are
  required for the event"; then required categories with none supplied fail 400
  "Categories are required for the event". Each of these leaves the store as it was, the
  seven failures are pairwise different, and a store that differs after the call means
  that all checks passed.\<close>

theorem submitTalk_check_order:
  "(getUserByUid s (req_uid req) = None
      \<longrightarrow> submitTalk cfp s req = (Inl (HttpException 404 ''User not found''), s))
   \<and> (\<forall>u. getUserByUid s (req_uid req) = Some u \<and> getTalk s (req_talkId req) = None
      \<longrightarrow> submitTalk cfp s req = (Inl (HttpException 404 ''Talk not found''), s))
   \<and> (\<forall>u t. getUserByUid s (req_uid req) = Some u \<and> getTalk s (req_talkId req) = Some t
         \<and> \<not> isUserSpeaker t (req_uid req)
      \<longrightarrow> submitTalk cfp s req = (Inl (HttpException 403 ''Forbidden''), s))
   \<and> (\<forall>u t. getUserByUid s (req_uid req) = Some u \<and> getTalk s (req_talkId req) = Some t
         \<and> isUserSpeaker t (req_uid req) \<and> getEventById s (req_eventId req) = None
      \<longrightarrow> submitTalk cfp s req = (Inl (HttpException 404 ''Event not found''), s))
   \<and> (\<forall>u t e. getUserByUid s (req_uid req) = Some u \<and> getTalk s (req_talkId req) = Some t
         \<and> isUserSpeaker t (req_uid req) \<and> getEventById s (req_eventId req) = Some e
         \<and> \<not> cfp (event_type e) (event_cfpStart e) (event_cfpEnd e)
      \<longrightarrow> submitTalk cfp s req = (Inl (HttpException 403 ''CFP is closed''), s))
   \<and> (\<forall>u t e. getUserByUid s (req_uid req) = Some u \<and> getTalk s (req_talkId req) = Some t
         \<and> isUserSpeaker t (req_uid req) \<and> getEventById s (req_eventId req) = Some e
         \<and> cfp (event_type e) (event_cfpStart e) (event_cfpEnd e)
         \<and> event_formatsRequired e \<and> isEmpty (body_formats (req_body req))
      \<longrightarrow> submitTalk cfp s req =
            (Inl (HttpException 400 ''Formats are required for the event''), s))
   \<and> (\<forall>u t e. getUserByUid s (req_uid req) = Some u \<and> getTalk s (req_talkId req) = Some t
         \<and> isUserSpeaker t (req_uid req) \<and> getEventById s (req_eventId req) = Some e
         \<and> cfp (event_type e) (event_cfpStart e) (event_cfpEnd e)
         \<and> \<not> (event_formatsRequired e \<and> isEmpty (body_formats (req_body req)))
         \<and> event_categoriesRequired e \<and> isEmpty (body_categories (req_body req))
      \<longrightarrow> submitTalk cfp s req =
            (Inl (HttpException 400 ''Categories are required for the event''), s))
   \<and> distinct [HttpException 404 ''User not found'', HttpException 404 ''Talk not found'',
        HttpException 403 ''Forbidden'', HttpException 404 ''Event not found'',
        HttpException 403 ''CFP is closed'',
        HttpException 400 ''Formats are required for the event'',
        HttpException 400 ''Categories are required for the event'']
   \<and> (snd (submitTalk cfp s req) \<noteq> s \<longrightarrow> (\<exists>u t e. checksPass cfp s req u t e))"
proof (intro conjI)
  show "snd (submitTalk cfp s req) \<noteq> s \<longrightarrow> (\<exists>u t e. checksPass cfp s req u t e)"
    using submitTalk_mutates_checked by blast
qed (simp_all add: submitTalk_def)

theorem submitTalk_check_order_witness:
  "submitTalk (isCfpOpened 50) store0 (submitBy ''nobody'' 1 1)
     = (Inl (HttpException 404 ''User not found''), store0) \<and>
   submitTalk (isCfpOpened 50) store0 (submitBy ''ben'' 99 1)
     = (Inl (HttpException 404 ''Talk not found''), store0) \<and>
   submitTalk (isCfpOpened 50) store0 (submitBy ''other'' 1 1)
     = (Inl (HttpException 403 ''Forbidden''), store0) \<and>
   submitTalk (isCfpOpened 50) store0 (submitBy ''ben'' 1 99)
     = (Inl (HttpException 404 ''Event not found''), store0) \<and>
   submitTalk (isCfpOpened 500) store0 (submitBy ''ben'' 1 1)
     = (Inl (HttpException 403 ''CFP is closed''), store0) \<and>
   submitTalk (isCfpOpened 50) (storeRequired True True) (submitBy ''ben'' 1 1)
     = (Inl (HttpException 400 ''Formats are required for the event''),
        storeRequired True True) \<and>
   submitTalk (isCfpOpened 50) (storeRequired False True) (submitBy ''ben'' 1 1)
     = (Inl (HttpException 400 ''Categories are required for the event''),
        storeRequired False True) \<and>
   snd (submitTalk (isCfpOpened 50) store0 (submitBy ''ben'' 1 1)) \<noteq> store0 \<and>
   (\<exists>u t e. checksPass (isCfpOpened 50) store0 (submitBy ''ben'' 1 1) u t e)"
proof -
  let ?conf = "\<lambda>f c. conf \<lparr> event_formatsRequired := f, event_categoriesRequired := c \<rparr>"
  have 1: "getUserByUid store0 (req_uid (submitBy ''nobody'' 1 1)) = None"
    by (simp add: sample_defs request_defs repo_defs)
  have 2: "getUserByUid store0 (req_uid (submitBy ''ben'' 99 1)) = Some ben \<and>
      getTalk store0 (req_talkId (submitBy ''ben'' 99 1)) = None"
    by (simp add: sample_defs request_defs repo_defs)
  have 3: "getUserByUid store0 (req_uid (submitBy ''other'' 1 1)) = Some other \<and>
      getTalk store0 (req_talkId (submitBy ''other'' 1 1)) = Some (withSpeakers store0 talkA) \<and>
      \<not> isUserSpeaker (withSpeakers store0 talkA) (req_uid (submitBy ''other'' 1 1))"
    by (simp add: sample_defs request_defs repo_defs ctrl_defs)
  have 4: "getUserByUid store0 (req_uid (submitBy ''ben'' 1 99)) = Some ben \<and>
      getTalk store0 (req_talkId (submitBy ''ben'' 1 99)) = Some (withSpeakers store0 talkA) \<and>
      isUserSpeaker (withSpeakers store0 talkA) (req_uid (submitBy ''ben'' 1 99)) \<and>
      getEventById store0 (req_eventId (submitBy ''ben'' 1 99)) = None"
    by (simp add: sample_defs request_defs repo_defs ctrl_defs)
  have 5: "getUserByUid store0 (req_uid (submitBy ''ben'' 1 1)) = Some ben \<and>
      getTalk store0 (req_talkId (submitBy ''ben'' 1 1)) = Some (withSpeakers store0 talkA) \<and>
      isUserSpeaker (withSpeakers store0 talkA) (req_uid (submitBy ''ben'' 1 1)) \<and>
      getEventById store0 (req_eventId (submitBy ''ben'' 1 1)) = Some conf \<and>
      \<not> isCfpOpened 500 (event_type conf) (event_cfpStart conf) (event_cfpEnd conf)"
    by (simp add: sample_defs request_defs repo_defs ctrl_defs)
  have 6: "getUserByUid (storeRequired True True) (req_uid (submitBy ''ben'' 1 1)) = Some ben \<and>
      getTalk (storeRequired True True) (req_talkId (submitBy ''ben'' 1 1))
        = Some (withSpeakers (storeRequired True True) talkA) \<and>
      isUserSpeaker (withSpeakers (storeRequired True True) talkA)
        (req_uid (submitBy ''ben'' 1 1)) \<and>
      getEventById (storeRequired True True) (req_eventId (submitBy ''ben'' 1 1))
        = Some (?conf True True) \<and>
      isCfpOpened 50 (event_type (?conf True True)) (event_cfpStart (?conf True True))
        (event_cfpEnd (?conf True True)) \<and>
      event_formatsRequired (?conf True True) \<and>
      isEmpty (body_formats (req_body (submitBy ''ben'' 1 1)))"
    by (simp add: sample_defs request_defs repo_defs ctrl_defs)
  have 7: "getUserByUid (storeRequired False True) (req_uid (submitBy ''ben'' 1 1)) = Some ben \<and>
      getTalk (storeRequired False True) (req_talkId (submitBy ''ben'' 1 1))
        = Some (withSpeakers (storeRequired False True) talkA) \<and>
      isUserSpeaker (withSpeakers (storeRequired False True) talkA)
        (req_uid (submitBy ''ben'' 1 1)) \<and>
      getEventById (storeRequired False True) (req_eventId (submitBy ''ben'' 1 1))
        = Some (?conf False True) \<and>
      isCfpOpened 50 (event_type (?conf False True)) (event_cfpStart (?conf False True))
        (event_cfpEnd (?conf False True)) \<and>
      \<not> (event_formatsRequired (?conf False True) \<and>
         isEmpty (body_formats (req_body (submitBy ''ben'' 1 1)))) \<and>
      event_categoriesRequired (?conf False True) \<and>
      isEmpty (body_categories (req_body (submitBy ''ben'' 1 1)))"
    by (simp add: sample_defs request_defs repo_defs ctrl_defs)
  have 8: "snd (submitTalk (isCfpOpened 50) store0 (submitBy ''ben'' 1 1)) \<noteq> store0"
    by (simp add: sample_defs request_defs repo_defs ctrl_defs)
  from submitTalk_check_order[of store0 "submitBy ''nobody'' 1 1" "isCfpOpened 50"] 1
  have a: "submitTalk (isCfpOpened 50) store0 (submitBy ''nobody'' 1 1)
     = (Inl (HttpException 404 ''User not found''), store0)" by blast
  from submitTalk_check_order[of store0 "submitBy ''ben'' 99 1" "isCfpOpened 50"] 2
  have b: "submitTalk (isCfpOpened 50) store0 (submitBy ''ben'' 99 1)
     = (Inl (HttpException 404 ''Talk not found''), store0)" by blast
  from submitTalk_check_order[of store0 "submitBy ''other'' 1 1" "isCfpOpened 50"] 3
  have c: "submitTalk (isCfpOpened 50) store0 (submitBy ''other'' 1 1)
     = (Inl (HttpException 403 ''Forbidden''), store0)" by blast
  from submitTalk_check_order[of store0 "submitBy ''ben'' 1 99" "isCfpOpened 50"] 4
  have d: "submitTalk (isCfpOpened 50) store0 (submitBy ''ben'' 1 99)
     = (Inl (HttpException 404 ''Event not found''), store0)" by blast
  from submitTalk_check_order[of store0 "submitBy ''ben'' 1 1" "isCfpOpened 500"] 5
  have e: "submitTalk (isCfpOpened 500) store0 (submitBy ''ben'' 1 1)
     = (Inl (HttpException 403 ''CFP is closed''), store0)" by blast
  from submitTalk_check_order[of "storeRequired True True" "submitBy ''ben'' 1 1"
      "isCfpOpened 50"] 6
  have f: "submitTalk (isCfpOpened 50) (storeRequired True True) (submitBy ''ben'' 1 1)
     = (Inl (HttpException 400 ''Formats are required for the event''),
        storeRequired True True)" by blast
  from submitTalk_check_order[of "storeRequired False True" "submitBy ''ben'' 1 1"
      "isCfpOpened 50"] 7
  have g: "submitTalk (isCfpOpened 50) (storeRequired False True) (submitBy ''ben'' 1 1)
     = (Inl (HttpException 400 ''Categories are required for the event''),
        storeRequired False True)" by blast
  from submitTalk_check_order[of store0 "submitBy ''ben'' 1 1" "isCfpOpened 50"] 8
  have h: "\<exists>u t e. checksPass (isCfpOpened 50) store0 (submitBy ''ben'' 1 1) u t e"
    by blast
  from a b c d e f g 8 h show ?thesis by blast
qed


section \<open>A closed call for papers\<close>

text \<open>C4: for every event whose call for papers is closed, \<open>submitTalk\<close> and
  \<open>unsubmitTalk\<close> of a resolvable requester and talk fail with status 403 and leave the
  store unchanged, whether or not the requester is a speaker of the talk and whoever
  owns the event: a speaker gets "CFP is closed", anyone else "Forbidden".\<close>

theorem cfp_closed_forbidden:
  assumes "getUserByUid s (req_uid req) = Some u"
      and "getTalk s (req_talkId req) = Some t"
      and "getEventById s (req_eventId req) = Some e"
      and "\<not> cfp (event_type e) (event_cfpStart e) (event_cfpEnd e)"
  shows "submitTalk cfp s req =
           (Inl (HttpException 403
              (if isUserSpeaker t (req_uid req) then ''CFP is closed'' else ''Forbidden'')), s)
       \<and> unsubmitTalk cfp s req =
           (Inl (HttpException 403
              (if isUserSpeaker t (req_uid req) then ''CFP is closed'' else ''Forbidden'')), s)"
  using assms by (simp add: submitTalk_def unsubmitTalk_def)

theorem cfp_closed_forbidden_witness:
  "\<not> isCfpOpened 500 (event_type conf) (event_cfpStart conf) (event_cfpEnd conf) \<and>
   submitTalk (isCfpOpened 500) store1 (submitBy ''ben'' 1 1)
     = (Inl (HttpException 403 ''CFP is closed''), store1) \<and>
   unsubmitTalk (isCfpOpened 500) store1 (submitBy ''ben'' 1 1)
     = (Inl (HttpException 403 ''CFP is closed''), store1) \<and>
   submitTalk (isCfpOpened 500) store1 (submitBy ''other'' 1 1)
     = (Inl (HttpException 403 ''Forbidden''), store1) \<and>
   unsubmitTalk (isCfpOpened 500) store1 (submitBy ''other'' 1 1)
     = (Inl (HttpException 403 ''Forbidden''), store1)"
proof -
  have closed: "\<not> isCfpOpened 500 (event_type conf) (event_cfpStart conf) (event_cfpEnd conf)"
    by (simp add: sample_defs repo_defs)
  have b: "getUserByUid store1 (req_uid (submitBy ''ben'' 1 1)) = Some ben"
    "getTalk store1 (req_talkId (submitBy ''ben'' 1 1)) = Some (withSpeakers store1 talkA)"
    "getEventById store1 (req_eventId (submitBy ''ben'' 1 1)) = Some conf"
    "isUserSpeaker (withSpeakers store1 talkA) (req_uid (submitBy ''ben'' 1 1))"
    by (simp_all add: sample_defs request_defs repo_defs ctrl_defs)
  have o: "getUserByUid store1 (req_uid (submitBy ''other'' 1 1)) = Some other"
    "getTalk store1 (req_talkId (submitBy ''other'' 1 1)) = Some (withSpeakers store1 talkA)"
    "getEventById store1 (req_eventId (submitBy ''other'' 1 1)) = Some conf"
    "\<not> isUserSpeaker (withSpeakers store1 talkA) (req_uid (submitBy ''other'' 1 1))"
    by (simp_all add: sample_defs request_defs repo_defs ctrl_defs)
  from cfp_closed_forbidden[where cfp = "isCfpOpened 500", OF b(1-3) closed] b(4)
       cfp_closed_forbidden[where cfp = "isCfpOpened 500", OF o(1-3) closed] o(4) closed
  show ?thesis by simp
qed

section \<open>Resubmitting\<close>





section \<open>Withdrawing a proposal\<close>

lemma filter_other_keys:
  "distinct (map f xs) \<Longrightarrow> x \<in> set xs \<Longrightarrow> filter (\<lambda>y. f y \<noteq> f x) xs = remove1 x xs"
proof (induction xs)
  case Nil
  then show ?case by simp
next
  case (Cons a xs)
  show ?case
  proof (cases "a = x")
    case True
    from Cons.prems True have "f x \<notin> f ` set xs" by simp
    then have "\<forall>y\<in>set xs. f y \<noteq> f x" by (metis imageI)
    then have "filter (\<lambda>y. f y \<noteq> f x) xs = xs" by (simp add: filter_id_conv)
    with True show ?thesis by simp
  next
    case False
    with Cons.prems have "x \<in> set xs" and "f a \<noteq> f x" by auto
    with Cons False show ?thesis by simp
  qed
qed

lemma getProposalForEvent_SomeD:
  assumes "getProposalForEvent s T E = Some p"
  shows "p \<in> set (proposals s)" "proposal_talkId p = T" "proposal_eventId p = E"
  using find_SomeD[OF assms[unfolded getProposalForEvent_def]] by auto

lemma deleteProposal_ok:
  assumes "p \<in> set (proposals s)"
  shows "deleteProposal s (proposal_id p) =
     (Inr (), s \<lparr> proposals := filter (\<lambda>q. proposal_id q \<noteq> proposal_id p) (proposals s) \<rparr>)"
  using assms by (auto simp: deleteProposal_def list_ex_iff)

lemma unsubmitTalk_passed:
  assumes "accessPass cfp s req u t e"
  shows "unsubmitTalk cfp s req =
     (case getProposalForEvent s (req_talkId req) (req_eventId req) of
        None \<Rightarrow> (Inl (HttpException 404 ''Proposal not found''), s)
      | Some p \<Rightarrow> deleteProposal s (proposal_id p))"
  using assms by (simp add: accessPass_def unsubmitTalk_def)

lemma unsubmitTalk_failure_frame:
  assumes "fst (unsubmitTalk cfp s req) = Inl err"
  shows "snd (unsubmitTalk cfp s req) = s"
  using assms
  by (auto simp: unsubmitTalk_def deleteProposal_def split: option.splits if_splits)

lemma rows_after_delete:
  assumes ok: "store_ok s" and p: "p \<in> set (proposals s)"
  shows "filter (\<lambda>q. proposal_talkId q = proposal_talkId p \<and>
                     proposal_eventId q = proposal_eventId p)
           (filter (\<lambda>q. proposal_id q \<noteq> proposal_id p) (proposals s)) = []"
proof -
  let ?k = "\<lambda>q. (proposal_talkId q, proposal_eventId q)"
  from ok have inj: "inj_on ?k (set (proposals s))"
    by (simp add: store_ok_def distinct_map)
  have "q = p" if "q \<in> set (proposals s)" "?k q = ?k p" for q
    using inj that p by (meson inj_onD)
  then show ?thesis
    by (auto simp: filter_empty_conv)
qed


text \<open>C6: \<open>unsubmitTalk\<close> resolves the requester, the talk and the event and re-checks
  speaker membership and the call for papers, failing as \<open>submitTalk\<close> does: 404 "User
  not found", 404 "Talk not found", 403 "Forbidden", 404 "Event not found", 403 "CFP is
  closed", and whenever one of these checks fails its outcome is that of \<open>submitTalk\<close>.
  Past them, it fails 404 "Proposal not found" when the pair (talk, event) has no
  proposal, and otherwise it succeeds and removes every row with that proposal's id, so
  the proposal is no longer in the table; in a store that respects its uniqueness
  constraints exactly that one row goes and the pair is left without a proposal. A
  failing call leaves the store as it was.\<close>

theorem unsubmitTalk_contract:
  "(getUserByUid s (req_uid req) = None
      \<longrightarrow> unsubmitTalk cfp s req = (Inl (HttpException 404 ''User not found''), s))
   \<and> (\<forall>u. getUserByUid s (req_uid req) = Some u \<and> getTalk s (req_talkId req) = None
      \<longrightarrow> unsubmitTalk cfp s req = (Inl (HttpException 404 ''Talk not found''), s))
   \<and> (\<forall>u t. getUserByUid s (req_uid req) = Some u \<and> getTalk s (req_talkId req) = Some t
         \<and> \<not> isUserSpeaker t (req_uid req)
      \<longrightarrow> unsubmitTalk cfp s req = (Inl (HttpException 403 ''Forbidden''), s))
   \<and> (\<forall>u t. getUserByUid s (req_uid req) = Some u \<and> getTalk s (req_talkId req) = Some t
         \<and> isUserSpeaker t (req_uid req) \<and> getEventById s (req_eventId req) = None
      \<longrightarrow> unsubmitTalk cfp s req = (Inl (HttpException 404 ''Event not found''), s))
   \<and> (\<forall>u t e. getUserByUid s (req_uid req) = Some u \<and> getTalk s (req_talkId req) = Some t
         \<and> isUserSpeaker t (req_uid req) \<and> getEventById s (req_eventId req) = Some e
         \<and> \<not> cfp (event_type e) (event_cfpStart e) (event_cfpEnd e)
      \<longrightarrow> unsubmitTalk cfp s req = (Inl (HttpException 403 ''CFP is closed''), s))
   \<and> (\<not> (\<exists>u t e. accessPass cfp s req u t e)
      \<longrightarrow> unsubmitTalk cfp s req = submitTalk cfp s req)
   \<and> (\<forall>u t e. accessPass cfp s req u t e
         \<and> getProposalForEvent s (req_talkId req) (req_eventId req) = None
      \<longrightarrow> unsubmitTalk cfp s req = (Inl (HttpException 404 ''Proposal not found''), s))
   \<and> (\<forall>u t e p. accessPass cfp s req u t e
         \<and> getProposalForEvent s (req_talkId req) (req_eventId req) = Some p
      \<longrightarrow> unsubmitTalk cfp s req =
            (Inr (), s \<lparr> proposals :=
                           filter (\<lambda>q. proposal_id q \<noteq> proposal_id p) (proposals s) \<rparr>)
          \<and> p \<in> set (proposals s)
          \<and> p \<notin> set (proposals (snd (unsubmitTalk cfp s req)))
          \<and> (store_ok s
             \<longrightarrow> proposals (snd (unsubmitTalk cfp s req)) = remove1 p (proposals s)
               \<and> length (proposals (snd (unsubmitTalk cfp s req))) + 1
                   = length (proposals s)
               \<and> proposalRows (snd (unsubmitTalk cfp s req)) (req_talkId req)
                   (req_eventId req) = 0))
   \<and> (\<forall>err. fst (unsubmitTalk cfp s req) = Inl err \<longrightarrow> snd (unsubmitTalk cfp s req) = s)"
proof -
  have same: "unsubmitTalk cfp s req = submitTalk cfp s req"
    if "\<not> (\<exists>u t e. accessPass cfp s req u t e)"
    using that
    by (auto simp: accessPass_def unsubmitTalk_def submitTalk_def split: option.splits)
  have absent: "unsubmitTalk cfp s req = (Inl (HttpException 404 ''Proposal not found''), s)"
    if "accessPass cfp s req u t e"
      "getProposalForEvent s (req_talkId req) (req_eventId req) = None" for u t e
    using that by (simp add: unsubmitTalk_passed)
  have present: "unsubmitTalk cfp s req =
          (Inr (), s \<lparr> proposals :=
                         filter (\<lambda>q. proposal_id q \<noteq> proposal_id p) (proposals s) \<rparr>)
        \<and> p \<in> set (proposals s)
        \<and> p \<notin> set (proposals (snd (unsubmitTalk cfp s req)))
        \<and> (store_ok s
           \<longrightarrow> proposals (snd (unsubmitTalk cfp s req)) = remove1 p (proposals s)
             \<and> length (proposals (snd (unsubmitTalk cfp s req))) + 1
                 = length (proposals s)
             \<and> proposalRows (snd (unsubmitTalk cfp s req)) (req_talkId req)
                 (req_eventId req) = 0)"
    if ap: "accessPass cfp s req u t e"
      and g: "getProposalForEvent s (req_talkId req) (req_eventId req) = Some p" for u t e p
  proof -
    note pd = getProposalForEvent_SomeD[OF g]
    have run: "unsubmitTalk cfp s req =
        (Inr (), s \<lparr> proposals :=
                       filter (\<lambda>q. proposal_id q \<noteq> proposal_id p) (proposals s) \<rparr>)"
      using unsubmitTalk_passed[OF ap] g deleteProposal_ok[OF pd(1)] by simp
    have gone: "p \<notin> set (proposals (snd (unsubmitTalk cfp s req)))"
      by (simp add: run)
    have exact: "proposals (snd (unsubmitTalk cfp s req)) = remove1 p (proposals s)
        \<and> length (proposals (snd (unsubmitTalk cfp s req))) + 1 = length (proposals s)
        \<and> proposalRows (snd (unsubmitTalk cfp s req)) (req_talkId req) (req_eventId req) = 0"
      if ok: "store_ok s"
    proof -
      from ok have "distinct (map proposal_id (proposals s))" by (simp add: store_ok_def)
      from filter_other_keys[OF this pd(1)]
      have r: "proposals (snd (unsubmitTalk cfp s req)) = remove1 p (proposals s)"
        by (simp add: run)
      have l: "length (proposals (snd (unsubmitTalk cfp s req))) + 1 = length (proposals s)"
        using pd(1) by (simp add: r length_remove1) (cases "proposals s"; simp)
      have z: "proposalRows (snd (unsubmitTalk cfp s req)) (req_talkId req) (req_eventId req)
          = 0"
        using rows_after_delete[OF ok pd(1)] pd(2,3) by (simp add: run proposalRows_def)
      from r l z show ?thesis by simp
    qed
    from run pd(1) gone exact show ?thesis by blast
  qed
  show ?thesis
  proof (intro conjI)
    show "\<not> (\<exists>u t e. accessPass cfp s req u t e)
        \<longrightarrow> unsubmitTalk cfp s req = submitTalk cfp s req"
      using same by blast
    show "\<forall>u t e. accessPass cfp s req u t e
         \<and> getProposalForEvent s (req_talkId req) (req_eventId req) = None
        \<longrightarrow> unsubmitTalk cfp s req = (Inl (HttpException 404 ''Proposal not found''), s)"
      using absent by blast
    show "\<forall>u t e p. accessPass cfp s req u t e
         \<and> getProposalForEvent s (req_talkId req) (req_eventId req) = Some p
      \<longrightarrow> unsubmitTalk cfp s req =
            (Inr (), s \<lparr> proposals :=
                           filter (\<lambda>q. proposal_id q \<noteq> proposal_id p) (proposals s) \<rparr>)
          \<and> p \<in> set (proposals s)
          \<and> p \<notin> set (proposals (snd (unsubmitTalk cfp s req)))
          \<and> (store_ok s
             \<longrightarrow> proposals (snd (unsubmitTalk cfp s req)) = remove1 p (proposals s)
               \<and> length (proposals (snd (unsubmitTalk cfp s req))) + 1
                   = length (proposals s)
               \<and> proposalRows (snd (unsubmitTalk cfp s req)) (req_talkId req)
                   (req_eventId req) = 0)"
      using present by blast
    show "\<forall>err. fst (unsubmitTalk cfp s req) = Inl err \<longrightarrow> snd (unsubmitTalk cfp s req) = s"
      using unsubmitTalk_failure_frame by blast
  qed (simp_all add: unsubmitTalk_def)
qed


theorem unsubmitTalk_contract_witness:
  "unsubmitTalk (isCfpOpened 50) store1 (submitBy ''nobody'' 1 1)
     = (Inl (HttpException 404 ''User not found''), store1) \<and>
   unsubmitTalk (isCfpOpened 50) store1 (submitBy ''ben'' 99 1)
     = (Inl (HttpException 404 ''Talk not found''), store1) \<and>
   unsubmitTalk (isCfpOpened 50) store1 (submitBy ''other'' 1 1)
     = (Inl (HttpException 403 ''Forbidden''), store1) \<and>
   unsubmitTalk (isCfpOpened 50) store1 (submitBy ''ben'' 1 99)
     = (Inl (HttpException 404 ''Event not found''), store1) \<and>
   unsubmitTalk (isCfpOpened 500) store1 (submitBy ''ben'' 1 1)
     = (Inl (HttpException 403 ''CFP is closed''), store1) \<and>
   unsubmitTalk (isCfpOpened 50) store1 (submitBy ''other'' 1 1)
     = submitTalk (isCfpOpened 50) store1 (submitBy ''other'' 1 1) \<and>
   unsubmitTalk (isCfpOpened 50) store1 (submitBy ''ben'' 2 1)
     = (Inl (HttpException 404 ''Proposal not found''), store1) \<and>
   store_ok store1 \<and>
   getProposalForEvent store1 1 1 = Some proposalA \<and>
   unsubmitTalk (isCfpOpened 50) store1 (submitBy ''ben'' 1 1)
     = (Inr (), store1 \<lparr> proposals := [] \<rparr>) \<and>
   proposalRows (snd (unsubmitTalk (isCfpOpened 50) store1 (submitBy ''ben'' 1 1))) 1 1 = 0 \<and>
   snd (unsubmitTalk (isCfpOpened 50) store1 (submitBy ''ben'' 2 1)) = store1"
proof -
  let ?tA = "withSpeakers store1 talkA"
  let ?tB = "withSpeakers store1 talkB"
  note defs = sample_defs request_defs repo_defs ctrl_defs accessPass_def
  have 1: "getUserByUid store1 (req_uid (submitBy ''nobody'' 1 1)) = None"
    by (simp add: defs)
  have 2: "getUserByUid store1 (req_uid (submitBy ''ben'' 99 1)) = Some ben \<and>
      getTalk store1 (req_talkId (submitBy ''ben'' 99 1)) = None"
    by (simp add: defs)
  have 3: "getUserByUid store1 (req_uid (submitBy ''other'' 1 1)) = Some other \<and>
      getTalk store1 (req_talkId (submitBy ''other'' 1 1)) = Some ?tA \<and>
      \<not> isUserSpeaker ?tA (req_uid (submitBy ''other'' 1 1))"
    by (simp add: defs)
  have 4: "getUserByUid store1 (req_uid (submitBy ''ben'' 1 99)) = Some ben \<and>
      getTalk store1 (req_talkId (submitBy ''ben'' 1 99)) = Some ?tA \<and>
      isUserSpeaker ?tA (req_uid (submitBy ''ben'' 1 99)) \<and>
      getEventById store1 (req_eventId (submitBy ''ben'' 1 99)) = None"
    by (simp add: defs)
  have 5: "getUserByUid store1 (req_uid (submitBy ''ben'' 1 1)) = Some ben \<and>
      getTalk store1 (req_talkId (submitBy ''ben'' 1 1)) = Some ?tA \<and>
      isUserSpeaker ?tA (req_uid (submitBy ''ben'' 1 1)) \<and>
      getEventById store1 (req_eventId (submitBy ''ben'' 1 1)) = Some conf \<and>
      \<not> isCfpOpened 500 (event_type conf) (event_cfpStart conf) (event_cfpEnd conf)"
    by (simp add: defs)
  have 6: "\<not> (\<exists>u t e. accessPass (isCfpOpened 50) store1 (submitBy ''other'' 1 1) u t e)"
    by (simp add: defs)
  have 7: "accessPass (isCfpOpened 50) store1 (submitBy ''ben'' 2 1) ben ?tB conf \<and>
      getProposalForEvent store1 (req_talkId (submitBy ''ben'' 2 1))
        (req_eventId (submitBy ''ben'' 2 1)) = None"
    by (simp add: defs)
  have 8: "accessPass (isCfpOpened 50) store1 (submitBy ''ben'' 1 1) ben ?tA conf \<and>
      getProposalForEvent store1 (req_talkId (submitBy ''ben'' 1 1))
        (req_eventId (submitBy ''ben'' 1 1)) = Some proposalA"
    by (simp add: defs)
  have ok: "store_ok store1"
    by (simp add: defs)
  have g: "getProposalForEvent store1 1 1 = Some proposalA"
    by (simp add: defs)
  have k: "req_talkId (submitBy ''ben'' 1 1) = 1" "req_eventId (submitBy ''ben'' 1 1) = 1"
    "filter (\<lambda>q. proposal_id q \<noteq> proposal_id proposalA) (proposals store1) = []"
    by (simp_all add: defs)
  from unsubmitTalk_contract[of store1 "submitBy ''nobody'' 1 1" "isCfpOpened 50"] 1
  have a: "unsubmitTalk (isCfpOpened 50) store1 (submitBy ''nobody'' 1 1)
     = (Inl (HttpException 404 ''User not found''), store1)" by blast
  from unsubmitTalk_contract[of store1 "submitBy ''ben'' 99 1" "isCfpOpened 50"] 2
  have b: "unsubmitTalk (isCfpOpened 50) store1 (submitBy ''ben'' 99 1)
     = (Inl (HttpException 404 ''Talk not found''), store1)" by blast
  from unsubmitTalk_contract[of store1 "submitBy ''other'' 1 1" "isCfpOpened 50"] 3
  have c: "unsubmitTalk (isCfpOpened 50) store1 (submitBy ''other'' 1 1)
     = (Inl (HttpException 403 ''Forbidden''), store1)" by blast
  from unsubmitTalk_contract[of store1 "submitBy ''ben'' 1 99" "isCfpOpened 50"] 4
  have d: "unsubmitTalk (isCfpOpened 50) store1 (submitBy ''ben'' 1 99)
     = (Inl (HttpException 404 ''Event not found''), store1)" by blast
  from unsubmitTalk_contract[of store1 "submitBy ''ben'' 1 1" "isCfpOpened 500"] 5
  have e: "unsubmitTalk (isCfpOpened 500) store1 (submitBy ''ben'' 1 1)
     = (Inl (HttpException 403 ''CFP is closed''), store1)" by blast
  from unsubmitTalk_contract[of store1 "submitBy ''other'' 1 1" "isCfpOpened 50"] 6
  have f: "unsubmitTalk (isCfpOpened 50) store1 (submitBy ''other'' 1 1)
     = submitTalk (isCfpOpened 50) store1 (submitBy ''other'' 1 1)" by blast
  note T = unsubmitTalk_contract[of store1 "submitBy ''ben'' 2 1" "isCfpOpened 50"]
  from T 7
  have h: "unsubmitTalk (isCfpOpened 50) store1 (submitBy ''ben'' 2 1)
     = (Inl (HttpException 404 ''Proposal not found''), store1)" by blast
  from T h
  have i: "snd (unsubmitTalk (isCfpOpened 50) store1 (submitBy ''ben'' 2 1)) = store1"
    by simp
  from unsubmitTalk_contract[of store1 "submitBy ''ben'' 1 1" "isCfpOpened 50"] 8 ok
  have j0: "unsubmitTalk (isCfpOpened 50) store1 (submitBy ''ben'' 1 1) =
        (Inr (), store1 \<lparr> proposals :=
            filter (\<lambda>q. proposal_id q \<noteq> proposal_id proposalA) (proposals store1) \<rparr>)
      \<and> proposalRows (snd (unsubmitTalk (isCfpOpened 50) store1 (submitBy ''ben'' 1 1)))
          (req_talkId (submitBy ''ben'' 1 1)) (req_eventId (submitBy ''ben'' 1 1)) = 0"
    by blast
  have j: "unsubmitTalk (isCfpOpened 50) store1 (submitBy ''ben'' 1 1)
        = (Inr (), store1 \<lparr> proposals := [] \<rparr>)
      \<and> proposalRows (snd (unsubmitTalk (isCfpOpened 50) store1 (submitBy ''ben'' 1 1))) 1 1
          = 0"
    by (rule j0[unfolded k])
  from a b c d e f h ok g j i show ?thesis by blast
qed

lemmas orga_defs = meetup_def reviewer_def storeOrga_def sampleRules_def hello_def
  storeMessages_def

lemmas organizer_defs = statusOf_def findOrganizationMember_def authorizationGate_def
  mutationStatus_def validRating_def isRatingOf_def findRating_def deleteRating_def
  upsertRating_def rate_def ownMessage_def updateMessage_def deleteMessage_def

section \<open>The authorization gate\<close>

text \<open>C9: the gate of the event-scoped organizer mutation endpoints applies its rules in
  order. Without an identity it fails \<open>Unauthenticated\<close> (401); with an identity that
  resolves to no user it fails \<open>UserNotFound\<close> (404); a user who is neither the owner of
  the event nor a member of its organization fails \<open>Forbidden\<close> (403); a member who is
  not the owner and whose role is the reviewer role fails \<open>Forbidden\<close> (403) on a
  mutation, though the gate lets that member read; and the owner of the event passes, so
  the mutation answers 204.\<close>

theorem authorizationGate_rules:
  "authorizationGate s None eventId mutation = Inl Unauthenticated
   \<and> mutationStatus s None eventId = 401
   \<and> (getUserByUid s uid = None
      \<longrightarrow> authorizationGate s (Some uid) eventId mutation = Inl (NotFound User)
        \<and> mutationStatus s (Some uid) eventId = 404)
   \<and> (\<forall>u e. getUserByUid s uid = Some u \<and> getEventById s eventId = Some e
         \<and> event_ownerId e \<noteq> Some (user_id u) \<and> findOrganizationMember s e u = None
      \<longrightarrow> authorizationGate s (Some uid) eventId mutation = Inl Forbidden
        \<and> mutationStatus s (Some uid) eventId = 403)
   \<and> (\<forall>u e m. getUserByUid s uid = Some u \<and> getEventById s eventId = Some e
         \<and> event_ownerId e \<noteq> Some (user_id u) \<and> findOrganizationMember s e u = Some m
         \<and> member_role m = REVIEWER
      \<longrightarrow> authorizationGate s (Some uid) eventId True = Inl Forbidden
        \<and> mutationStatus s (Some uid) eventId = 403
        \<and> authorizationGate s (Some uid) eventId False = Inr u)
   \<and> (\<forall>u e. getUserByUid s uid = Some u \<and> getEventById s eventId = Some e
         \<and> event_ownerId e = Some (user_id u)
      \<longrightarrow> authorizationGate s (Some uid) eventId True = Inr u
        \<and> mutationStatus s (Some uid) eventId = 204)"
  by (simp add: authorizationGate_def mutationStatus_def statusOf_def)

theorem authorizationGate_rules_witness:
  "mutationStatus storeOrga None 2 = 401 \<and>
   mutationStatus storeOrga (Some ''nobody'') 2 = 404 \<and>
   findOrganizationMember storeOrga meetup ben = None \<and>
   mutationStatus storeOrga (Some ''ben'') 2 = 403 \<and>
   findOrganizationMember storeOrga meetup other = Some reviewer \<and>
   mutationStatus storeOrga (Some ''other'') 2 = 403 \<and>
   authorizationGate storeOrga (Some ''other'') 2 False = Inr other \<and>
   event_ownerId conf = Some (user_id ben) \<and>
   mutationStatus storeOrga (Some ''ben'') 1 = 204"
proof -
  note defs = sample_defs orga_defs repo_defs organizer_defs
  have 1: "getUserByUid storeOrga ''nobody'' = None"
    by (simp add: defs)
  have 2: "getUserByUid storeOrga ''ben'' = Some ben \<and> getEventById storeOrga 2 = Some meetup
      \<and> event_ownerId meetup \<noteq> Some (user_id ben)
      \<and> findOrganizationMember storeOrga meetup ben = None"
    by (simp add: defs)
  have 3: "getUserByUid storeOrga ''other'' = Some other
      \<and> getEventById storeOrga 2 = Some meetup
      \<and> event_ownerId meetup \<noteq> Some (user_id other)
      \<and> findOrganizationMember storeOrga meetup other = Some reviewer
      \<and> member_role reviewer = REVIEWER"
    by (simp add: defs)
  have 4: "getUserByUid storeOrga ''ben'' = Some ben \<and> getEventById storeOrga 1 = Some conf
      \<and> event_ownerId conf = Some (user_id ben)"
    by (simp add: defs)
  from authorizationGate_rules[of storeOrga 2 True "''nobody''"] 1
  have a: "mutationStatus storeOrga None 2 = 401 \<and>
      mutationStatus storeOrga (Some ''nobody'') 2 = 404"
    by blast
  from authorizationGate_rules[of storeOrga 2 True "''ben''"] 2
  have b: "mutationStatus storeOrga (Some ''ben'') 2 = 403"
    by blast
  from authorizationGate_rules[of storeOrga 2 True "''other''"] 3
  have c: "mutationStatus storeOrga (Some ''other'') 2 = 403 \<and>
      authorizationGate storeOrga (Some ''other'') 2 False = Inr other"
    by blast
  from authorizationGate_rules[of storeOrga 1 True "''ben''"] 4
  have d: "mutationStatus storeOrga (Some ''ben'') 1 = 204"
    by blast
  from a b c d 2 3 4 show ?thesis by blast
qed

section \<open>Ratings\<close>

lemma find_map_same:
  "(\<And>x. P (f x) = P x) \<Longrightarrow> find P (map f xs) = map_option f (find P xs)"
  by (induction xs) auto

lemma find_snoc:
  "find P (xs @ [y]) = (case find P xs of None \<Rightarrow> (if P y then Some y else None) | Some x \<Rightarrow> Some x)"
  by (induction xs) auto

lemma findRating_upsert:
  "\<exists>row. findRating (upsertRating s u p r f) u p = Some row \<and>
     rating_userId row = u \<and> rating_proposalId row = p \<and>
     rating_rating row = r \<and> rating_feeling row = f"
proof (cases "list_ex (isRatingOf u p) (ratings s)")
  case True
  then obtain old where old: "find (isRatingOf u p) (ratings s) = Some old"
    using find_Some_ex by blast
  from find_SomeD[OF old] have key: "isRatingOf u p old" by simp
  let ?g = "\<lambda>row. if isRatingOf u p row
      then row \<lparr> rating_rating := r, rating_feeling := f \<rparr> else row"
  have "find (isRatingOf u p) (map ?g (ratings s)) = map_option ?g (find (isRatingOf u p) (ratings s))"
    by (rule find_map_same) (simp add: isRatingOf_def)
  with True old key show ?thesis
    by (simp add: findRating_def upsertRating_def) (simp add: isRatingOf_def)
next
  case False
  then have "find (isRatingOf u p) (ratings s) = None"
    by (simp add: find_None_conv)
  with False show ?thesis
    by (simp add: findRating_def upsertRating_def find_snoc) (simp add: isRatingOf_def)
qed

lemma findRating_delete:
  "findRating (deleteRating s u p) u p = None"
  "\<not> list_ex (isRatingOf u p) (ratings (deleteRating s u p))"
  by (simp_all add: findRating_def deleteRating_def find_None_conv list_ex_iff)

text \<open>C8: the rating round-trip. Where 3 is an accepted rating and NEUTRAL a defined
  feeling, \<open>rate\<close> of (3, NEUTRAL) by user \<open>u\<close> on proposal \<open>p\<close> succeeds, and the
  read-back of (u, p) is a row holding rating 3 and feeling NEUTRAL; a following \<open>rate\<close>
  with neither rating nor feeling succeeds and deletes the row: the read-back is absent
  and no row of (u, p) is left.\<close>

theorem rate_round_trip:
  assumes "minRating rules \<le> 3" and "3 \<le> maxRating rules"
      and "''NEUTRAL'' \<in> set (feelings rules)"
  shows "\<exists>s1 s2 row.
           rate rules s p u (Some 3) (Some ''NEUTRAL'') = (Inr (), s1) \<and>
           findRating s1 u p = Some row \<and>
           rating_userId row = u \<and> rating_proposalId row = p \<and>
           rating_rating row = Some 3 \<and> rating_feeling row = Some ''NEUTRAL'' \<and>
           rate rules s1 p u None None = (Inr (), s2) \<and>
           findRating s2 u p = None \<and>
           \<not> list_ex (isRatingOf u p) (ratings s2)"
proof -
  let ?s1 = "upsertRating s u p (Some 3) (Some ''NEUTRAL'')"
  let ?s2 = "deleteRating ?s1 u p"
  have r1: "rate rules s p u (Some 3) (Some ''NEUTRAL'') = (Inr (), ?s1)"
    using assms by (simp add: rate_def validRating_def)
  have r2: "rate rules ?s1 p u None None = (Inr (), ?s2)"
    by (simp add: rate_def validRating_def)
  from findRating_upsert[of s u p "Some 3" "Some ''NEUTRAL''"]
  obtain row where "findRating ?s1 u p = Some row"
    "rating_userId row = u" "rating_proposalId row = p"
    "rating_rating row = Some 3" "rating_feeling row = Some ''NEUTRAL''"
    by blast
  with r1 r2 findRating_delete[where s = ?s1 and u = u and p = p] show ?thesis by blast
qed

theorem rate_round_trip_witness:
  "minRating sampleRules \<le> 3 \<and> 3 \<le> maxRating sampleRules \<and>
   ''NEUTRAL'' \<in> set (feelings sampleRules) \<and>
   (\<exists>s1 s2 row.
      rate sampleRules store1 1 1 (Some 3) (Some ''NEUTRAL'') = (Inr (), s1) \<and>
      findRating s1 1 1 = Some row \<and>
      rating_userId row = 1 \<and> rating_proposalId row = 1 \<and>
      rating_rating row = Some 3 \<and> rating_feeling row = Some ''NEUTRAL'' \<and>
      rate sampleRules s1 1 1 None None = (Inr (), s2) \<and>
      findRating s2 1 1 = None \<and>
      \<not> list_ex (isRatingOf 1 1) (ratings s2))"
proof -
  have h: "minRating sampleRules \<le> 3" "3 \<le> maxRating sampleRules"
    "''NEUTRAL'' \<in> set (feelings sampleRules)"
    by (simp_all add: sampleRules_def)
  from rate_round_trip[OF h, of store1 1 1] h show ?thesis by blast
qed


section \<open>Messages\<close>

text \<open>C7: updating or deleting a message fails \<open>MessageNotFound\<close> (404), not
  \<open>Forbidden\<close> (403), both when no message has the given id and when the message
  exists but was written by another user. This holds for every requester whom the gate
  authorizes on the event, for an update that carries a message text; the store is left
  unchanged.\<close>

theorem message_not_found:
  "(\<forall>u. authorizationGate s identity eventId mutation = Inr u
        \<and> (find (\<lambda>m. message_id m = messageId) (messages s) = None
           \<or> (\<exists>m. find (\<lambda>m. message_id m = messageId) (messages s) = Some m
                  \<and> message_userId m \<noteq> user_id u))
      \<longrightarrow> (\<not> isEmpty newText
            \<longrightarrow> updateMessage s (user_id u) proposalId messageId newText
                 = (Inl (NotFound Message), s))
        \<and> deleteMessage s (user_id u) proposalId messageId = (Inl (NotFound Message), s))
   \<and> statusOf (NotFound Message) = 404
   \<and> statusOf Forbidden = 403
   \<and> NotFound Message \<noteq> Forbidden"
  by (auto simp: updateMessage_def deleteMessage_def ownMessage_def statusOf_def)

theorem message_not_found_witness:
  "authorizationGate storeMessages (Some ''ben'') 1 True = Inr ben \<and>
   find (\<lambda>m. message_id m = 1) (messages storeMessages) = Some hello \<and>
   message_userId hello \<noteq> user_id ben \<and>
   updateMessage storeMessages (user_id ben) 1 1 (Some ''Goodbye world'')
     = (Inl (NotFound Message), storeMessages) \<and>
   deleteMessage storeMessages (user_id ben) 1 1 = (Inl (NotFound Message), storeMessages) \<and>
   find (\<lambda>m. message_id m = 99) (messages storeMessages) = None \<and>
   updateMessage storeMessages (user_id ben) 1 99 (Some ''Goodbye world'')
     = (Inl (NotFound Message), storeMessages) \<and>
   deleteMessage storeMessages (user_id ben) 1 99 = (Inl (NotFound Message), storeMessages)"
proof -
  note defs = sample_defs orga_defs repo_defs organizer_defs
  have gate: "authorizationGate storeMessages (Some ''ben'') 1 True = Inr ben"
    by (simp add: defs)
  have theirs: "find (\<lambda>m. message_id m = 1) (messages storeMessages) = Some hello"
    "message_userId hello \<noteq> user_id ben"
    by (simp_all add: defs)
  have none: "find (\<lambda>m. message_id m = 99) (messages storeMessages) = None"
    by (simp add: defs)
  have given: "\<not> isEmpty (Some ''Goodbye world'')"
    by (simp add: isEmpty_def)
  from message_not_found[of storeMessages "Some ''ben''" 1 True 1 "Some ''Goodbye world''" 1]
    gate theirs given
  have a: "updateMessage storeMessages (user_id ben) 1 1 (Some ''Goodbye world'')
      = (Inl (NotFound Message), storeMessages) \<and>
    deleteMessage storeMessages (user_id ben) 1 1 = (Inl (NotFound Message), storeMessages)"
    by blast
  from message_not_found[of storeMessages "Some ''ben''" 1 True 99 "Some ''Goodbye world''" 1]
    gate none given
  have b: "updateMessage storeMessages (user_id ben) 1 99 (Some ''Goodbye world'')
      = (Inl (NotFound Message), storeMessages) \<and>
    deleteMessage storeMessages (user_id ben) 1 99 = (Inl (NotFound Message), storeMessages)"
    by blast
  from gate theirs none a b show ?thesis by blast
qed

section \<open>Submitting twice\<close>


lemma rewrite_created:
  assumes "proposal_speakers q = []" "proposal_formats q = []" "proposal_categories q = []"
  shows "writeProposal (updateData t b) (writeProposal (createData t b) q)
     = writeProposal (createData t b) q"
  using assms by (simp add: writeProposal_def updateData_def createData_def applyRelation_def)








end
